theory Spec2Isabelle
  imports Main
begin

section \<open>Python values\<close>

text \<open>
  The provenance service is a small FastAPI application (\<^verbatim>\<open>main.py\<close>) on top of
  \<^verbatim>\<open>app/keystores.py\<close> (certificate and signer loading) and \<^verbatim>\<open>app/provenance.py\<close>
  (the two record-assembly workflows). Dictionaries and step payloads are JSON values;
  a dict keeps its insertion order, so an object is an association list.
\<close>

datatype json =
    JNull
  | JBool bool
  | JInt int
  | JStr string
  | JList "json list"
  | JObj "(string \<times> json) list"

text \<open>
  A raised exception is a value: the names of the classes it is an instance of (its
  class first, then every base class) and the text \<^verbatim>\<open>str(exc)\<close> gives. Only subclasses
  of \<^verbatim>\<open>Exception\<close> are modelled; every \<^verbatim>\<open>except Exception\<close> of the service catches
  them all.
\<close>

datatype exn = Exn (exn_mro: "string list") (exn_str: string)

definition isinstance :: "exn \<Rightarrow> string \<Rightarrow> bool" where
  "isinstance e c = (c \<in> set (exn_mro e))"

text \<open>\<^verbatim>\<open>repr\<close> of a string without quotes or escapes in it: the text in single quotes.\<close>

definition quoted :: "string \<Rightarrow> string" where
  "quoted s = [CHR 0x27] @ s @ [CHR 0x27]"

definition ValueError :: "string \<Rightarrow> exn" where
  "ValueError m = Exn [''ValueError'', ''Exception''] m"

definition TypeError :: "string \<Rightarrow> exn" where
  "TypeError m = Exn [''TypeError'', ''Exception''] m"

definition AttributeError :: "string \<Rightarrow> exn" where
  "AttributeError m = Exn [''AttributeError'', ''Exception''] m"

definition KeyError :: "string \<Rightarrow> exn" where
  "KeyError k = Exn [''KeyError'', ''LookupError'', ''Exception''] (quoted k)"

definition IndexError :: "string \<Rightarrow> exn" where
  "IndexError m = Exn [''IndexError'', ''LookupError'', ''Exception''] m"

definition FileNotFoundError :: "string \<Rightarrow> exn" where
  "FileNotFoundError path =
     Exn [''FileNotFoundError'', ''OSError'', ''Exception'']
       (''[Errno 2] No such file or directory: '' @ quoted path)"

text \<open>
  \<^verbatim>\<open>app/exceptions.py\<close> is not among the sources: the base classes of the application's
  own \<^verbatim>\<open>KeyNotFoundError\<close> are a parameter of the model.
\<close>

definition KeyNotFoundError :: "string list \<Rightarrow> string \<Rightarrow> exn" where
  "KeyNotFoundError bases m = Exn (''KeyNotFoundError'' # bases) m"

section \<open>Strings\<close>

definition startswith :: "string \<Rightarrow> string \<Rightarrow> bool" where
  "startswith s p = (take (length p) s = p)"

text \<open>
  \<^verbatim>\<open>s.split(sep, maxsplit)\<close>: the pieces of \<open>s\<close> between the occurrences of \<open>sep\<close>,
  scanned from the left, at most \<open>maxsplit\<close> cuts (a negative \<open>maxsplit\<close>, Python's
  default \<open>-1\<close>, is no limit). \<open>split_from\<close> carries the piece being read, reversed.
\<close>

fun split_from :: "string \<Rightarrow> int \<Rightarrow> string \<Rightarrow> string \<Rightarrow> string list" where
  "split_from sep k acc [] = [rev acc]"
| "split_from sep k acc (c # cs) =
     (if k \<noteq> 0 \<and> startswith (c # cs) sep
      then rev acc # split_from sep (k - 1) [] (drop (length sep - 1) cs)
      else split_from sep k (c # acc) cs)"

definition py_split :: "string \<Rightarrow> string \<Rightarrow> int \<Rightarrow> exn + string list" where
  "py_split s sep maxsplit =
     (if sep = [] then Inl (ValueError ''empty separator'')
      else Inr (split_from sep maxsplit [] s))"

definition list_getitem :: "'a list \<Rightarrow> nat \<Rightarrow> exn + 'a" where
  "list_getitem xs i =
     (if i < length xs then Inr (xs ! i) else Inl (IndexError ''list index out of range''))"

definition dict_getitem :: "json \<Rightarrow> string \<Rightarrow> exn + json" where
  "dict_getitem d k =
     (case d of
        JObj kvs \<Rightarrow> (case map_of kvs k of Some v \<Rightarrow> Inr v | None \<Rightarrow> Inl (KeyError k))
      | _ \<Rightarrow> Inl (TypeError ''object is not subscriptable''))"

section \<open>The environment of the process\<close>

datatype certificate_provider = CertificatesProviderSelfContainedRecord string

datatype signer =
    SignerKMS certificate_provider "string list" string
  | SignerInMemory certificate_provider "string list" string

text \<open>
  What the code reads from outside itself: \<^verbatim>\<open>os.environ\<close>, the values of
  \<^verbatim>\<open>app/conf.py\<close>, the local file system (a path is absent, or opening and reading it
  raises, or it holds bytes), the object store and the key-management service behind
  \<^verbatim>\<open>boto3\<close>, the PEM parsers of \<^verbatim>\<open>cryptography\<close> and the signer constructors of
  \<^verbatim>\<open>ib1.provenance.signing\<close>. \<open>ssm_parameters\<close> is the managed secret store the
  docstring of \<^verbatim>\<open>get_signer\<close> names.
\<close>

record env =
  environ_KMS_KEY_ID :: "string option"
  conf_ROOT_CA_CERTIFICATE :: "string option"
  conf_SIGNING_KEY :: "string option"
  conf_SIGNING_BUNDLE :: "string option"
  conf_SCHEME_URL :: string
  conf_TRUST_FRAMEWORK_URL :: string
  files :: "string \<Rightarrow> (exn + string) option"
  boto3_client :: "string \<Rightarrow> exn option"
  s3_get_object :: "string \<Rightarrow> string \<Rightarrow> exn + string"
  ssm_parameters :: "string \<Rightarrow> string option"
  load_pem_x509_certificates :: "string \<Rightarrow> exn + string list"
  load_pem_private_key :: "string \<Rightarrow> exn + string"
  init_SignerKMS :: "certificate_provider \<Rightarrow> string list \<Rightarrow> string \<Rightarrow> exn option"
  init_SignerInMemory :: "certificate_provider \<Rightarrow> string list \<Rightarrow> string \<Rightarrow> exn option"
  init_CertificatesProvider :: "string \<Rightarrow> exn option"
  KeyNotFoundError_bases :: "string list"

text \<open>\<^verbatim>\<open>with open(path, "rb") as f: f.read()\<close>\<close>

definition open_rb :: "env \<Rightarrow> string \<Rightarrow> exn + string" where
  "open_rb E path =
     (case files E path of
        None \<Rightarrow> Inl (FileNotFoundError path)
      | Some r \<Rightarrow> r)"

section \<open>app/keystores.py\<close>

definition get_certificate :: "env \<Rightarrow> string \<Rightarrow> exn + string" where
  "get_certificate E certificate_path =
     (if startswith certificate_path ''s3://'' then
        (case boto3_client E ''s3'' of
           Some e \<Rightarrow> Inl e
         | None \<Rightarrow>
            (case py_split certificate_path ''s3://'' (- 1) of
               Inl e \<Rightarrow> Inl e
             | Inr pieces \<Rightarrow>
                (case list_getitem pieces 1 of
                   Inl e \<Rightarrow> Inl e
                 | Inr rest \<Rightarrow>
                    (case py_split rest ''/'' 1 of
                       Inl e \<Rightarrow> Inl e
                     | Inr [bucket, key] \<Rightarrow> s3_get_object E bucket key
                     | Inr [_] \<Rightarrow>
                         Inl (ValueError ''not enough values to unpack (expected 2, got 1)'')
                     | Inr _ \<Rightarrow>
                         Inl (ValueError ''too many values to unpack (expected 2)'')))))
      else open_rb E certificate_path)"

text \<open>
  \<^verbatim>\<open>get_signer\<close>: the signer's certificate chain is loaded first; then the
  key-management tier when \<^verbatim>\<open>KMS_KEY_ID\<close> is set and not empty, any exception of which
  is swallowed (logged); then the local key file at \<^verbatim>\<open>conf.SIGNING_KEY\<close>.
\<close>

definition kms_tier :: "env \<Rightarrow> certificate_provider \<Rightarrow> string list \<Rightarrow> signer option" where
  "kms_tier E certificate_provider certificates =
     (case environ_KMS_KEY_ID E of
        None \<Rightarrow> None
      | Some kms_key_id \<Rightarrow>
          if kms_key_id = [] then None
          else
            (case boto3_client E ''kms'' of
               Some e \<Rightarrow> None
             | None \<Rightarrow>
                (case init_SignerKMS E certificate_provider certificates kms_key_id of
                   Some e \<Rightarrow> None
                 | None \<Rightarrow> Some (SignerKMS certificate_provider certificates kms_key_id))))"

definition file_tier :: "env \<Rightarrow> certificate_provider \<Rightarrow> string list \<Rightarrow> exn + signer" where
  "file_tier E certificate_provider certificates =
     (case conf_SIGNING_KEY E of
        None \<Rightarrow> Inl (TypeError ''expected str, bytes or os.PathLike object, not NoneType'')
      | Some path \<Rightarrow>
         (case open_rb E path of
            Inl e \<Rightarrow>
              if isinstance e ''FileNotFoundError''
              then Inl (KeyNotFoundError (KeyNotFoundError_bases E)
                     ''Signing key not found in KMS or local file, check configuration.'')
              else Inl e
          | Inr key_pem \<Rightarrow>
             (case load_pem_private_key E key_pem of
                Inl e \<Rightarrow> Inl e
              | Inr private_key \<Rightarrow>
                 (case init_SignerInMemory E certificate_provider certificates private_key of
                    Some e \<Rightarrow> Inl e
                  | None \<Rightarrow> Inr (SignerInMemory certificate_provider certificates private_key)))))"

definition get_signer :: "env \<Rightarrow> certificate_provider \<Rightarrow> exn + signer" where
  "get_signer E certificate_provider =
     (case conf_SIGNING_BUNDLE E of
        None \<Rightarrow> Inl (AttributeError ''NoneType object has no attribute startswith'')
      | Some bundle \<Rightarrow>
         (case get_certificate E bundle of
            Inl e \<Rightarrow> Inl e
          | Inr signer_chain_pem \<Rightarrow>
             (case load_pem_x509_certificates E signer_chain_pem of
                Inl e \<Rightarrow> Inl e
              | Inr certificates \<Rightarrow>
                 (case kms_tier E certificate_provider certificates of
                    Some s \<Rightarrow> Inr s
                  | None \<Rightarrow> file_tier E certificate_provider certificates))))"

section \<open>main.py: start-up and error translation\<close>

record app_context =
  ctx_certificate_provider :: "certificate_provider option"
  ctx_signer :: "signer option"

definition falsy :: "string option \<Rightarrow> bool" where
  "falsy v = (case v of None \<Rightarrow> True | Some s \<Rightarrow> s = [])"

text \<open>
  \<^verbatim>\<open>lifespan\<close> up to its \<^verbatim>\<open>yield\<close>: the application serves requests only once this
  has returned a context; an exception here ends the start-up.
\<close>

definition lifespan :: "env \<Rightarrow> exn + app_context" where
  "lifespan E =
     (if falsy (conf_ROOT_CA_CERTIFICATE E) then Inl (ValueError ''ROOT_CA_CERTIFICATE is not set'')
      else if falsy (conf_SIGNING_BUNDLE E) then Inl (ValueError ''SIGNING_BUNDLE is not set'')
      else
        (case conf_ROOT_CA_CERTIFICATE E of
           None \<Rightarrow> Inl (ValueError ''ROOT_CA_CERTIFICATE is not set'')
         | Some root \<Rightarrow>
            (case get_certificate E root of
               Inl e \<Rightarrow> Inl e
             | Inr pem \<Rightarrow>
                (case init_CertificatesProvider E pem of
                   Some e \<Rightarrow> Inl e
                 | None \<Rightarrow>
                    (case get_signer E (CertificatesProviderSelfContainedRecord pem) of
                       Inl e \<Rightarrow> Inl e
                     | Inr s \<Rightarrow>
                         Inr \<lparr>ctx_certificate_provider =
                                Some (CertificatesProviderSelfContainedRecord pem),
                              ctx_signer = Some s\<rparr>)))))"

text \<open>\<^verbatim>\<open>_handle_endpoint_exception\<close>, which always raises the \<^verbatim>\<open>HTTPException\<close> it builds.\<close>

datatype http_exception = HTTPException (status_code: nat) (detail: string)

definition handle_endpoint_exception :: "string \<Rightarrow> exn \<Rightarrow> http_exception" where
  "handle_endpoint_exception action exc =
     (if isinstance exc ''ValueError'' \<or> isinstance exc ''FrameworkAuthError'' then
        HTTPException 400
          (if exn_str exc \<noteq> [] then exn_str exc
           else ''Unable to '' @ action @ '' due to invalid input.'')
      else if isinstance exc ''ConfigurationError'' then
        HTTPException 503 ''Signing service is not properly configured. Please try again later.''
      else
        HTTPException 500 (''Unable to '' @ action @ '' at this time.''))"

section \<open>datetime.isoformat\<close>

text \<open>
  A \<^verbatim>\<open>datetime\<close> with its fields; \<open>utcoffset\<close> is \<^verbatim>\<open>None\<close> for a naive value and
  otherwise the offset from UTC in microseconds.
\<close>

record datetime =
  year :: nat
  month :: nat
  day :: nat
  hour :: nat
  minute :: nat
  second :: nat
  microsecond :: nat
  utcoffset :: "int option"

definition valid_datetime :: "datetime \<Rightarrow> bool" where
  "valid_datetime d =
     (1 \<le> year d \<and> year d \<le> 9999 \<and> 1 \<le> month d \<and> month d \<le> 12 \<and> 1 \<le> day d \<and> day d \<le> 31
      \<and> hour d < 24 \<and> minute d < 60 \<and> second d < 60 \<and> microsecond d < 1000000
      \<and> (case utcoffset d of None \<Rightarrow> True
          | Some off \<Rightarrow> - 86400000000 < off \<and> off < 86400000000))"

definition digit_char :: "nat \<Rightarrow> char" where
  "digit_char n = ''0123456789'' ! (n mod 10)"

fun decimal :: "nat \<Rightarrow> string" where
  "decimal n = (if n < 10 then [digit_char n] else decimal (n div 10) @ [digit_char n])"

text \<open>\<^verbatim>\<open>"%0kd" % n\<close>\<close>

definition zero_padded :: "nat \<Rightarrow> nat \<Rightarrow> string" where
  "zero_padded k n = replicate (k - length (decimal n)) (CHR ''0'') @ decimal n"

definition isoformat_seconds :: "datetime \<Rightarrow> string" where
  "isoformat_seconds d =
     zero_padded 4 (year d) @ ''-'' @ zero_padded 2 (month d) @ ''-'' @ zero_padded 2 (day d)
     @ ''T'' @ zero_padded 2 (hour d) @ '':'' @ zero_padded 2 (minute d) @ '':''
     @ zero_padded 2 (second d)"

definition format_microsecond :: "datetime \<Rightarrow> string" where
  "format_microsecond d =
     (if microsecond d \<noteq> 0 then ''.'' @ zero_padded 6 (microsecond d) else [])"

definition format_offset :: "int option \<Rightarrow> string" where
  "format_offset off =
     (case off of
        None \<Rightarrow> []
      | Some v \<Rightarrow>
          (let a = nat \<bar>v\<bar>;
               hh = a div 3600000000;
               mm = (a mod 3600000000) div 60000000;
               ss = (a mod 3600000000) mod 60000000
           in (if v < 0 then ''-'' else ''+'') @ zero_padded 2 hh @ '':'' @ zero_padded 2 mm
              @ (if ss \<noteq> 0
                 then '':'' @ zero_padded 2 (ss div 1000000)
                      @ (if ss mod 1000000 \<noteq> 0 then ''.'' @ zero_padded 6 (ss mod 1000000)
                         else [])
                 else [])))"

definition isoformat :: "datetime \<Rightarrow> string" where
  "isoformat d = isoformat_seconds d @ format_microsecond d @ format_offset (utcoffset d)"

text \<open>The slice \<^verbatim>\<open>s[0:-7]\<close>, and the f-string \<^verbatim>\<open>f"{d.isoformat()[0:-7]}Z"\<close> of the
  permission steps.\<close>

definition slice_0_minus7 :: "string \<Rightarrow> string" where
  "slice_0_minus7 s = take (length s - 7) s"

definition permission_time :: "datetime \<Rightarrow> string" where
  "permission_time d = slice_0_minus7 (isoformat d) @ ''Z''"

section \<open>The record library\<close>

text \<open>
  \<^verbatim>\<open>ib1.provenance.Record\<close> is an installed package, not part of the sources. A record
  object is modelled by the trust framework it was opened with, the encoded artifact it
  was opened from, and its steps in chain order. What the package computes inside
  (parsing an artifact, checking signatures, matching a step against criteria, choosing
  a new step id, validating a payload, signing, encoding) is a parameter.
\<close>

record prov_record =
  rec_trust_framework :: json
  rec_loaded_from :: "json option"
  rec_steps :: "json list"

record lib =
  lib_decode :: "json \<Rightarrow> exn + json list"
  lib_verify :: "certificate_provider \<Rightarrow> prov_record \<Rightarrow> exn option"
  lib_matches :: "json \<Rightarrow> json \<Rightarrow> bool"
  lib_next_id :: "prov_record \<Rightarrow> string"
  lib_check_step :: "prov_record \<Rightarrow> json \<Rightarrow> exn option"
  lib_sign :: "signer \<Rightarrow> prov_record \<Rightarrow> exn + prov_record"
  lib_encoded :: "prov_record \<Rightarrow> exn + json"
  lib_decoded :: "prov_record \<Rightarrow> exn + json"

definition TrustFrameworkMismatch :: exn where
  "TrustFrameworkMismatch =
     Exn [''TrustFrameworkMismatch'', ''Exception''] ''trust framework does not match''"

definition StepNotFoundError :: exn where
  "StepNotFoundError = Exn [''StepNotFoundError'', ''Exception''] ''step not found''"

text \<open>
  Modelled from the spec: the constructor \<^verbatim>\<open>Record(trust_framework, record)\<close> of the
  package. Without an artifact it starts an empty chain; with one it decodes it (the
  decoder's error on malformed input) and fails with \<open>TrustFrameworkMismatch\<close> if the
  id embedded under \<^verbatim>\<open>"ib1:provenance"\<close> differs from the one supplied.
\<close>

definition Record_init :: "lib \<Rightarrow> json \<Rightarrow> json option \<Rightarrow> exn + prov_record" where
  "Record_init L trust_framework artifact =
     (case artifact of
        None \<Rightarrow>
          Inr \<lparr>rec_trust_framework = trust_framework, rec_loaded_from = None, rec_steps = []\<rparr>
      | Some a \<Rightarrow>
         (case lib_decode L a of
            Inl e \<Rightarrow> Inl e
          | Inr steps \<Rightarrow>
             (case dict_getitem a ''ib1:provenance'' of
                Inl e \<Rightarrow> Inl e
              | Inr embedded \<Rightarrow>
                  if embedded \<noteq> trust_framework then Inl TrustFrameworkMismatch
                  else Inr \<lparr>rec_trust_framework = trust_framework, rec_loaded_from = Some a,
                            rec_steps = steps\<rparr>)))"

definition set_id :: "string \<Rightarrow> json \<Rightarrow> json" where
  "set_id i payload =
     (case payload of
        JObj kvs \<Rightarrow> JObj ((''id'', JStr i) # filter (\<lambda>kv. fst kv \<noteq> ''id'') kvs)
      | _ \<Rightarrow> payload)"

section \<open>Calls into the library, with their trace\<close>

text \<open>
  The workflows are sequences of calls on one record object. Each call appends an event
  to the trace of the run, whether it returns or raises; a raise ends the run. The event
  of \<^verbatim>\<open>verify\<close> says whether it returned, the event of \<^verbatim>\<open>add_step\<close> holds the record
  as it was when the call was made.
\<close>

datatype event =
    Ev_Record json "json option"
  | Ev_verify certificate_provider prov_record bool
  | Ev_find_step json
  | Ev_add_step prov_record json
  | Ev_sign
  | Ev_encoded
  | Ev_decoded prov_record

type_synonym 'a io = "event list \<Rightarrow> (exn + 'a) \<times> event list"

definition ret :: "'a \<Rightarrow> 'a io" where
  "ret x = (\<lambda>t. (Inr x, t))"

definition lift :: "exn + 'a \<Rightarrow> 'a io" where
  "lift r = (\<lambda>t. (r, t))"

definition bnd :: "'a io \<Rightarrow> ('a \<Rightarrow> 'b io) \<Rightarrow> 'b io" where
  "bnd m f = (\<lambda>t. case m t of (Inl e, t') \<Rightarrow> (Inl e, t') | (Inr x, t') \<Rightarrow> f x t')"

definition new_Record :: "lib \<Rightarrow> json \<Rightarrow> json option \<Rightarrow> prov_record io" where
  "new_Record L trust_framework artifact =
     (\<lambda>t. (Record_init L trust_framework artifact, t @ [Ev_Record trust_framework artifact]))"

definition verify :: "lib \<Rightarrow> prov_record \<Rightarrow> certificate_provider \<Rightarrow> unit io" where
  "verify L r certificate_provider =
     (\<lambda>t. case lib_verify L certificate_provider r of
              Some e \<Rightarrow> (Inl e, t @ [Ev_verify certificate_provider r False])
            | None \<Rightarrow> (Inr (), t @ [Ev_verify certificate_provider r True]))"

text \<open>
  Modelled from the spec: \<^verbatim>\<open>find_step\<close> returns the first step, in chain order, that
  matches the criteria, and fails with \<open>StepNotFoundError\<close> if none does.
\<close>

definition find_step :: "lib \<Rightarrow> prov_record \<Rightarrow> json \<Rightarrow> json io" where
  "find_step L r criteria =
     (\<lambda>t. ((case find (lib_matches L criteria) (rec_steps r) of
               None \<Rightarrow> Inl StepNotFoundError
             | Some s \<Rightarrow> Inr s),
            t @ [Ev_find_step criteria]))"

text \<open>
  Modelled from the spec: \<^verbatim>\<open>add_step\<close> validates the payload, gives the step a new
  id, appends it to the chain and returns the id.
\<close>

definition add_step :: "lib \<Rightarrow> prov_record \<Rightarrow> json \<Rightarrow> (string \<times> prov_record) io" where
  "add_step L r payload =
     (\<lambda>t. ((case lib_check_step L r payload of
               Some e \<Rightarrow> Inl e
             | None \<Rightarrow>
                 Inr (lib_next_id L r,
                      r\<lparr>rec_steps := rec_steps r @ [set_id (lib_next_id L r) payload]\<rparr>)),
            t @ [Ev_add_step r payload]))"

definition sign :: "lib \<Rightarrow> prov_record \<Rightarrow> signer \<Rightarrow> prov_record io" where
  "sign L r s = (\<lambda>t. (lib_sign L s r, t @ [Ev_sign]))"

definition encoded :: "lib \<Rightarrow> prov_record \<Rightarrow> json io" where
  "encoded L r = (\<lambda>t. (lib_encoded L r, t @ [Ev_encoded]))"

definition decoded :: "lib \<Rightarrow> prov_record \<Rightarrow> json io" where
  "decoded L r = (\<lambda>t. (lib_decoded L r, t @ [Ev_decoded r]))"

section \<open>app/provenance.py\<close>

text \<open>
  The step payloads are the dict literals of the two workflows, one definition each, in
  the order of the source. \<^verbatim>\<open>from_date\<close> and \<^verbatim>\<open>to_date\<close> are the datetimes the request
  models hold. The \<^verbatim>\<open>print\<close> and logging calls of the source, among them the loop that
  prints the steps of the attachment before \<^verbatim>\<open>verify\<close>, change nothing and are left out.
\<close>

definition date_Z :: "datetime \<Rightarrow> json" where
  "date_Z d = JStr (isoformat d @ ''Z'')"

definition edp_permission_step :: "env \<Rightarrow> datetime \<Rightarrow> datetime \<Rightarrow> string \<Rightarrow> json" where
  "edp_permission_step E permission_granted permission_expires account =
     JObj [(''type'', JStr ''permission''),
           (''scheme'', JStr (conf_SCHEME_URL E)),
           (''timestamp'', JStr (permission_time permission_granted)),
           (''account'', JStr account),
           (''allows'', JObj [(''licences'',
              JList [JStr (conf_SCHEME_URL E @ ''/licence/energy-consumption-data/2024-12-05'')])]),
           (''expires'', JStr (permission_time permission_expires))]"

definition edp_origin_step ::
  "env \<Rightarrow> datetime \<Rightarrow> datetime \<Rightarrow> string \<Rightarrow> string \<Rightarrow> string \<Rightarrow> json" where
  "edp_origin_step E from_date to_date origin_url origin_license_url edp_permission_id =
     JObj [(''type'', JStr ''origin''),
           (''scheme'', JStr (conf_SCHEME_URL E)),
           (''sourceType'', JStr (conf_SCHEME_URL E @ ''/source-type/Meter'')),
           (''origin'', JStr origin_url),
           (''originLicence'', JStr origin_license_url),
           (''external'', JBool True),
           (''permissions'', JList [JStr edp_permission_id]),
           (''perseus:scheme'', JObj [(''meteringPeriod'',
              JObj [(''from'', date_Z from_date), (''to'', date_Z to_date)])]),
           (''perseus:assurance'', JObj [(''dataSource'',
              JStr (conf_SCHEME_URL E @ ''/assurance/data-source/SmartMeter''))])]"

definition edp_transfer_step ::
  "env \<Rightarrow> datetime \<Rightarrow> datetime \<Rightarrow> string \<Rightarrow> string \<Rightarrow> string \<Rightarrow> string \<Rightarrow> string \<Rightarrow> json" where
  "edp_transfer_step E from_date to_date service_url fapi_id cap_member origin_id
       edp_permission_id =
     JObj [(''type'', JStr ''transfer''),
           (''scheme'', JStr (conf_SCHEME_URL E)),
           (''of'', JStr origin_id),
           (''to'', JStr cap_member),
           (''standard'',
              JStr (conf_SCHEME_URL E @ ''/standard/energy-consumption-data/2024-12-05'')),
           (''licence'',
              JStr (conf_SCHEME_URL E @ ''/licence/energy-consumption-data/2024-12-05'')),
           (''service'', JStr service_url),
           (''path'', JStr ''/readings''),
           (''parameters'', JObj [(''measure'', JStr ''import''),
              (''from'', date_Z from_date), (''to'', date_Z to_date)]),
           (''permissions'', JList [JStr edp_permission_id]),
           (''transaction'', JStr fapi_id)]"

definition create_edp_provenance_record ::
  "env \<Rightarrow> lib \<Rightarrow> signer \<Rightarrow> datetime \<Rightarrow> datetime \<Rightarrow> datetime \<Rightarrow> datetime \<Rightarrow> string \<Rightarrow> string
     \<Rightarrow> string \<Rightarrow> string \<Rightarrow> string \<Rightarrow> string \<Rightarrow> json io" where
  "create_edp_provenance_record E L signer from_date to_date permission_granted
       permission_expires service_url account fapi_id cap_member origin_url origin_license_url =
     bnd (new_Record L (JStr (conf_TRUST_FRAMEWORK_URL E)) None) (\<lambda>r0.
     bnd (add_step L r0
            (edp_permission_step E permission_granted permission_expires account))
       (\<lambda>(edp_permission_id, r1).
     bnd (add_step L r1
            (edp_origin_step E from_date to_date origin_url origin_license_url
               edp_permission_id))
       (\<lambda>(origin_id, r2).
     bnd (add_step L r2
            (edp_transfer_step E from_date to_date service_url fapi_id cap_member origin_id
               edp_permission_id))
       (\<lambda>(transfer_id, r3).
     bnd (sign L r3 signer) (\<lambda>edp_record_signed.
     encoded L edp_record_signed)))))"

definition search_criteria ::
  "env \<Rightarrow> datetime \<Rightarrow> datetime \<Rightarrow> string \<Rightarrow> string \<Rightarrow> string \<Rightarrow> json" where
  "search_criteria E from_date to_date cap_member_id edp_service_url edp_member_id =
     JObj [(''type'', JStr ''transfer''),
           (''scheme'', JStr (conf_SCHEME_URL E)),
           (''to'', JStr cap_member_id),
           (''standard'',
              JStr (conf_SCHEME_URL E @ ''/standard/energy-consumption-data/2024-12-05'')),
           (''licence'',
              JStr (conf_SCHEME_URL E @ ''/licence/energy-consumption-data/2024-12-05'')),
           (''service'', JStr edp_service_url),
           (''path'', JStr ''/readings''),
           (''parameters'', JObj [(''measure'', JStr ''import''),
              (''from'', date_Z from_date), (''to'', date_Z to_date)]),
           (''_signature'', JObj [(''signed'', JObj [(''member'', JStr edp_member_id),
              (''roles'',
                 JList [JStr (conf_SCHEME_URL E @ ''/role/carbon-accounting-provider'')])])])]"

definition cap_receipt_step :: "json \<Rightarrow> json" where
  "cap_receipt_step transfer_id = JObj [(''type'', JStr ''receipt''), (''transfer'', transfer_id)]"

definition cap_permission_step :: "env \<Rightarrow> datetime \<Rightarrow> datetime \<Rightarrow> string \<Rightarrow> json" where
  "cap_permission_step E cap_permission_granted cap_permission_expires cap_account =
     JObj [(''type'', JStr ''permission''),
           (''scheme'', JStr (conf_SCHEME_URL E)),
           (''timestamp'', JStr (permission_time cap_permission_granted)),
           (''account'', JStr cap_account),
           (''allows'', JObj [
              (''licenses'',
                 JList [JStr (conf_SCHEME_URL E @ ''/license/emissions-report/2024-12-05'')]),
              (''processes'',
                 JList [JStr (conf_SCHEME_URL E
                          @ ''/process/emissions-calculations/2024-12-05'')])]),
           (''expires'', JStr (permission_time cap_permission_expires))]"

definition cap_intensity_origin_step ::
  "env \<Rightarrow> datetime \<Rightarrow> datetime \<Rightarrow> string \<Rightarrow> string \<Rightarrow> string \<Rightarrow> json" where
  "cap_intensity_origin_step E from_date to_date grid_intensity_origin grid_intensity_license
       postcode =
     JObj [(''type'', JStr ''origin''),
           (''scheme'', JStr (conf_SCHEME_URL E)),
           (''sourceType'', JStr (conf_SCHEME_URL E @ ''/source-type/GridCarbonIntensity'')),
           (''origin'', JStr grid_intensity_origin),
           (''originLicense'', JStr grid_intensity_license),
           (''external'', JBool True),
           (''perseus:scheme'', JObj [
              (''meteringPeriod'',
                 JObj [(''from'', date_Z from_date), (''to'', date_Z to_date)]),
              (''postcode'', JStr postcode)]),
           (''perseus:assurance'', JObj [(''missingData'',
              JStr (conf_SCHEME_URL E @ ''/assurance/missing-data/Complete''))])]"

definition cap_processing_step :: "env \<Rightarrow> string \<Rightarrow> string \<Rightarrow> string \<Rightarrow> json" where
  "cap_processing_step E cap_receipt_id cap_intensity_origin_id cap_permission_id =
     JObj [(''type'', JStr ''process''),
           (''scheme'', JStr (conf_SCHEME_URL E)),
           (''inputs'', JList [JStr cap_receipt_id, JStr cap_intensity_origin_id]),
           (''process'',
              JStr (conf_SCHEME_URL E @ ''/process/emissions-calculations/2024-12-05'')),
           (''permissions'', JList [JStr cap_permission_id]),
           (''perseus:assurance'', JObj [(''missingData'',
              JStr (conf_SCHEME_URL E @ ''/assurance/missing-data/Substituted''))])]"

definition cap_transfer_step ::
  "env \<Rightarrow> datetime \<Rightarrow> datetime \<Rightarrow> string \<Rightarrow> string \<Rightarrow> string \<Rightarrow> string \<Rightarrow> json" where
  "cap_transfer_step E from_date to_date bank_member_id bank_service_url cap_processing_id
       cap_permission_id =
     JObj [(''type'', JStr ''transfer''),
           (''scheme'', JStr (conf_SCHEME_URL E)),
           (''of'', JStr cap_processing_id),
           (''to'', JStr bank_member_id),
           (''standard'', JStr (conf_SCHEME_URL E @ ''/standard/emissions-report/2024-12-05'')),
           (''licence'', JStr (conf_SCHEME_URL E @ ''/licence/emissions-report/2024-12-05'')),
           (''service'', JStr bank_service_url),
           (''path'', JStr ''/emissions''),
           (''parameters'', JObj [(''from'', date_Z from_date), (''to'', date_Z to_date)]),
           (''permissions'', JList [JStr cap_permission_id])]"

definition create_cap_provenance_record ::
  "env \<Rightarrow> lib \<Rightarrow> signer \<Rightarrow> certificate_provider \<Rightarrow> json \<Rightarrow> string \<Rightarrow> string \<Rightarrow> string
     \<Rightarrow> datetime \<Rightarrow> datetime \<Rightarrow> string \<Rightarrow> string \<Rightarrow> string \<Rightarrow> string \<Rightarrow> string \<Rightarrow> string
     \<Rightarrow> datetime \<Rightarrow> datetime \<Rightarrow> json io" where
  "create_cap_provenance_record E L signer certificate_provider edp_data_attachment
       cap_member_id bank_member_id cap_account cap_permission_granted cap_permission_expires
       grid_intensity_origin grid_intensity_license postcode edp_service_url edp_member_id
       bank_service_url from_date to_date =
     bnd (new_Record L (JStr (conf_TRUST_FRAMEWORK_URL E)) (Some edp_data_attachment)) (\<lambda>r0.
     bnd (verify L r0 certificate_provider) (\<lambda>_.
     bnd (find_step L r0
            (search_criteria E from_date to_date cap_member_id edp_service_url edp_member_id))
       (\<lambda>transfer_from_edp_step.
     bnd (lift (dict_getitem transfer_from_edp_step ''id'')) (\<lambda>transfer_id.
     bnd (add_step L r0 (cap_receipt_step transfer_id)) (\<lambda>(cap_receipt_id, r1).
     bnd (add_step L r1
            (cap_permission_step E cap_permission_granted cap_permission_expires cap_account))
       (\<lambda>(cap_permission_id, r2).
     bnd (add_step L r2
            (cap_intensity_origin_step E from_date to_date grid_intensity_origin
               grid_intensity_license postcode))
       (\<lambda>(cap_intensity_origin_id, r3).
     bnd (add_step L r3
            (cap_processing_step E cap_receipt_id cap_intensity_origin_id cap_permission_id))
       (\<lambda>(cap_processing_id, r4).
     bnd (add_step L r4
            (cap_transfer_step E from_date to_date bank_member_id bank_service_url
               cap_processing_id cap_permission_id))
       (\<lambda>(cap_transfer_id, r5).
     bnd (sign L r5 signer) (\<lambda>cap_record_signed.
     encoded L cap_record_signed))))))))))"

section \<open>main.py: the endpoints\<close>

record EdpProvenanceRecordRequest =
  edpreq_from_date :: datetime
  edpreq_to_date :: datetime
  edpreq_permission_granted :: datetime
  edpreq_permission_expires :: datetime
  edpreq_service_url :: string
  edpreq_account :: string
  edpreq_fapi_id :: string
  edpreq_cap_member :: string
  edpreq_origin_url :: string
  edpreq_origin_license_url :: string

record CapProvenanceRecordRequest =
  capreq_edp_data_attachment :: json
  capreq_cap_member_id :: string
  capreq_bank_member_id :: string
  capreq_cap_account :: string
  capreq_cap_permission_granted :: datetime
  capreq_cap_permission_expires :: datetime
  capreq_grid_intensity_origin :: string
  capreq_grid_intensity_license :: string
  capreq_postcode :: string
  capreq_edp_service_url :: string
  capreq_edp_member_id :: string
  capreq_bank_service_url :: string
  capreq_from_date :: datetime
  capreq_to_date :: datetime

text \<open>\<^verbatim>\<open>context["signer"]\<close> and \<^verbatim>\<open>context["certificate_provider"]\<close>\<close>

definition context_signer :: "app_context \<Rightarrow> exn + signer" where
  "context_signer ctx =
     (case ctx_signer ctx of None \<Rightarrow> Inl (KeyError ''signer'') | Some s \<Rightarrow> Inr s)"

definition context_certificate_provider :: "app_context \<Rightarrow> exn + certificate_provider" where
  "context_certificate_provider ctx =
     (case ctx_certificate_provider ctx of
        None \<Rightarrow> Inl (KeyError ''certificate_provider'')
      | Some cp \<Rightarrow> Inr cp)"

text \<open>
  \<^verbatim>\<open>try: ... except Exception as exc: _handle_endpoint_exception(action, exc)\<close>:
  the handler always raises, so the endpoint returns the body's value or raises the
  \<^verbatim>\<open>HTTPException\<close> the handler made.
\<close>

definition try_endpoint :: "string \<Rightarrow> json io \<Rightarrow> event list \<Rightarrow> (http_exception + json) \<times> event list" where
  "try_endpoint action body =
     (\<lambda>t. case body t of
             (Inl exc, t') \<Rightarrow> (Inl (handle_endpoint_exception action exc), t')
           | (Inr v, t') \<Rightarrow> (Inr v, t'))"

definition sign_edp ::
  "env \<Rightarrow> lib \<Rightarrow> app_context \<Rightarrow> EdpProvenanceRecordRequest
     \<Rightarrow> event list \<Rightarrow> (http_exception + json) \<times> event list" where
  "sign_edp E L ctx request =
     try_endpoint ''create EDP provenance record''
       (bnd (lift (context_signer ctx)) (\<lambda>signer.
          create_edp_provenance_record E L signer (edpreq_from_date request) (edpreq_to_date request)
            (edpreq_permission_granted request) (edpreq_permission_expires request)
            (edpreq_service_url request) (edpreq_account request) (edpreq_fapi_id request)
            (edpreq_cap_member request) (edpreq_origin_url request) (edpreq_origin_license_url request)))"

definition sign_cap ::
  "env \<Rightarrow> lib \<Rightarrow> app_context \<Rightarrow> CapProvenanceRecordRequest
     \<Rightarrow> event list \<Rightarrow> (http_exception + json) \<times> event list" where
  "sign_cap E L ctx request =
     try_endpoint ''create CAP provenance record''
       (bnd (lift (context_signer ctx)) (\<lambda>signer.
        bnd (lift (context_certificate_provider ctx)) (\<lambda>certificate_provider.
          create_cap_provenance_record E L signer certificate_provider
            (capreq_edp_data_attachment request) (capreq_cap_member_id request)
            (capreq_bank_member_id request) (capreq_cap_account request)
            (capreq_cap_permission_granted request) (capreq_cap_permission_expires request)
            (capreq_grid_intensity_origin request) (capreq_grid_intensity_license request)
            (capreq_postcode request) (capreq_edp_service_url request) (capreq_edp_member_id request)
            (capreq_bank_service_url request) (capreq_from_date request) (capreq_to_date request))))"

definition decode_provenance_record :: "lib \<Rightarrow> app_context \<Rightarrow> json \<Rightarrow> json io" where
  "decode_provenance_record L ctx record_encoded =
     bnd (lift (dict_getitem record_encoded ''ib1:provenance'')) (\<lambda>trust_framework.
     bnd (new_Record L trust_framework (Some record_encoded)) (\<lambda>r.
     bnd (lift (context_certificate_provider ctx)) (\<lambda>certificate_provider.
     bnd (verify L r certificate_provider) (\<lambda>_.
     decoded L r))))"

section \<open>Properties of traces, chains and strings\<close>

text \<open>
  \<open>guarded g v t\<close>: in the trace \<open>t\<close>, every \<^verbatim>\<open>add_step\<close> call comes after the event
  \<open>g\<close> (\<open>v\<close> says that \<open>g\<close> was already seen before \<open>t\<close> starts).
\<close>

fun guarded :: "event \<Rightarrow> bool \<Rightarrow> event list \<Rightarrow> bool" where
  "guarded g v [] = True"
| "guarded g v (e # es) =
     (case e of
        Ev_add_step r p \<Rightarrow> v \<and> guarded g v es
      | _ \<Rightarrow> guarded g (v \<or> e = g) es)"

definition is_add_step :: "event \<Rightarrow> bool" where
  "is_add_step e = (case e of Ev_add_step r p \<Rightarrow> True | _ \<Rightarrow> False)"

text \<open>
  The references of a step payload: the step ids it names under \<^verbatim>\<open>"of"\<close> and
  \<^verbatim>\<open>"transfer"\<close> (one id each) and under \<^verbatim>\<open>"inputs"\<close> and \<^verbatim>\<open>"permissions"\<close>
  (lists of ids). A reference resolves in a chain if a step of the chain has it as
  its \<^verbatim>\<open>"id"\<close>.
\<close>

definition listed :: "json \<Rightarrow> json list" where
  "listed v = (case v of JList vs \<Rightarrow> vs | _ \<Rightarrow> [v])"

definition references :: "json \<Rightarrow> json list" where
  "references step =
     (case step of
        JObj kvs \<Rightarrow>
          concat (map (\<lambda>k. case map_of kvs k of None \<Rightarrow> [] | Some v \<Rightarrow> [v])
                    [''of'', ''transfer''])
          @ concat (map (\<lambda>k. case map_of kvs k of None \<Rightarrow> [] | Some v \<Rightarrow> listed v)
                      [''inputs'', ''permissions''])
      | _ \<Rightarrow> [])"

definition resolves_in :: "json list \<Rightarrow> json \<Rightarrow> bool" where
  "resolves_in chain v = list_ex (\<lambda>s. dict_getitem s ''id'' = Inr v) chain"

text \<open>\<open>contains s sep\<close>: \<open>sep\<close> occurs in \<open>s\<close>.\<close>

fun contains :: "string \<Rightarrow> string \<Rightarrow> bool" where
  "contains [] sep = (sep = [])"
| "contains (c # cs) sep = (startswith (c # cs) sep \<or> contains cs sep)"

text \<open>
  A timestamp in the extended format of ISO 8601 with the UTC designator:
  \<^verbatim>\<open>YYYY-MM-DDThh:mm:ss\<close>, an optional decimal fraction of the second (a point and at
  least one digit), then \<^verbatim>\<open>Z\<close>. A whole-minute offset is one that \<^verbatim>\<open>isoformat\<close> prints
  as \<^verbatim>\<open>+hh:mm\<close>.
\<close>

definition is_digit :: "char \<Rightarrow> bool" where
  "is_digit c = (c \<in> set ''0123456789'')"

definition date_time_shape :: "string \<Rightarrow> bool" where
  "date_time_shape s =
     (length s = 19
      \<and> list_all is_digit (take 4 s) \<and> s ! 4 = CHR ''-''
      \<and> list_all is_digit (take 2 (drop 5 s)) \<and> s ! 7 = CHR ''-''
      \<and> list_all is_digit (take 2 (drop 8 s)) \<and> s ! 10 = CHR ''T''
      \<and> list_all is_digit (take 2 (drop 11 s)) \<and> s ! 13 = CHR '':''
      \<and> list_all is_digit (take 2 (drop 14 s)) \<and> s ! 16 = CHR '':''
      \<and> list_all is_digit (take 2 (drop 17 s)))"

definition fraction_ok :: "string \<Rightarrow> bool" where
  "fraction_ok f = (f = [] \<or> (hd f = CHR ''.'' \<and> tl f \<noteq> [] \<and> list_all is_digit (tl f)))"

definition iso8601_utc :: "string \<Rightarrow> bool" where
  "iso8601_utc s =
     (20 \<le> length s \<and> date_time_shape (take 19 s) \<and> last s = CHR ''Z''
      \<and> fraction_ok (butlast (drop 19 s)))"

definition whole_minute_offset :: "datetime \<Rightarrow> bool" where
  "whole_minute_offset d =
     (case utcoffset d of
        None \<Rightarrow> False
      | Some v \<Rightarrow> (nat \<bar>v\<bar> mod 3600000000) mod 60000000 = 0)"

section \<open>Example inputs\<close>

text \<open>
  A development host with local certificate files and no signing key file, a library
  that keeps steps as they are, an attachment of three steps sealed once, and the runs
  of the workflows on them.
\<close>

definition DecodeError :: exn where
  "DecodeError = Exn [''DecodeError'', ''Exception''] ''malformed record''"

definition SignatureInvalidError :: exn where
  "SignatureInvalidError = Exn [''SignatureInvalidError'', ''Exception''] ''bad signature''"

definition lib_plain :: lib where
  "lib_plain =
     \<lparr>lib_decode = (\<lambda>a. case dict_getitem a ''steps'' of
                           Inr (JList steps) \<Rightarrow> Inr steps
                         | _ \<Rightarrow> Inl DecodeError),
      lib_verify = (\<lambda>cp r. case rec_loaded_from r of
                           None \<Rightarrow> None
                         | Some a \<Rightarrow>
                             if dict_getitem a ''signatures'' = Inr (JList [JStr ''signed''])
                             then None else Some SignatureInvalidError),
      lib_matches = (\<lambda>criteria step.
                       dict_getitem step ''type'' = dict_getitem criteria ''type''
                       \<and> dict_getitem step ''to'' = dict_getitem criteria ''to''),
      lib_next_id = (\<lambda>r. replicate (Suc (length (rec_steps r))) (CHR ''i'')),
      lib_check_step = (\<lambda>r payload. None),
      lib_sign = (\<lambda>s r. Inr r),
      lib_encoded = (\<lambda>r. Inr (JObj [(''ib1:provenance'', rec_trust_framework r),
                                   (''steps'', JList (rec_steps r)),
                                   (''signatures'', JList [JStr ''signed''])])),
      lib_decoded = (\<lambda>r. Inr (JList (rec_steps r)))\<rparr>"

definition env_plain :: env where
  "env_plain =
     \<lparr>environ_KMS_KEY_ID = None,
      conf_ROOT_CA_CERTIFICATE = Some ''/certs/root-ca.pem'',
      conf_SIGNING_KEY = Some ''/certs/signing-key.pem'',
      conf_SIGNING_BUNDLE = Some ''/certs/signing-bundle.pem'',
      conf_SCHEME_URL = ''https://registry.core.sandbox.trust.ib1.org/scheme/perseus'',
      conf_TRUST_FRAMEWORK_URL = ''https://registry.core.sandbox.trust.ib1.org/trust-framework'',
      files = (\<lambda>p. if p = ''/certs/root-ca.pem'' then Some (Inr ''ROOT-PEM'')
                   else if p = ''/certs/signing-bundle.pem'' then Some (Inr ''BUNDLE-PEM'')
                   else None),
      boto3_client = (\<lambda>service. None),
      s3_get_object = (\<lambda>bucket key.
                         if bucket = ''trust-bucket'' \<and> key = ''certs/root-ca.pem''
                         then Inr ''ROOT-PEM''
                         else Inl (Exn [''ClientError'', ''Exception''] ''NoSuchKey'')),
      ssm_parameters = (\<lambda>name. None),
      load_pem_x509_certificates = (\<lambda>pem. Inr [pem]),
      load_pem_private_key = (\<lambda>pem. Inr pem),
      init_SignerKMS = (\<lambda>cp certs k. None),
      init_SignerInMemory = (\<lambda>cp certs k. None),
      init_CertificatesProvider = (\<lambda>pem. None),
      KeyNotFoundError_bases = [''Exception'']\<rparr>"

text \<open>
  The same host with \<^verbatim>\<open>KMS_KEY_ID\<close> set, the key-management client out of reach, and
  the signing key stored in the managed secret store under the name of
  \<^verbatim>\<open>conf.SIGNING_KEY\<close>.
\<close>

definition env_kms_down :: env where
  "env_kms_down =
     env_plain
       \<lparr>environ_KMS_KEY_ID := Some ''alias/provenance-signing'',
        boto3_client := (\<lambda>service. if service = ''kms''
                          then Some (Exn [''NoCredentialsError'', ''Exception'']
                                 ''Unable to locate credentials'')
                          else None),
        ssm_parameters := (\<lambda>name. if name = ''/certs/signing-key.pem''
                          then Some ''KEY-PEM'' else None)\<rparr>"

definition attachment_plain :: json where
  "attachment_plain =
     JObj [(''ib1:provenance'',
              JStr ''https://registry.core.sandbox.trust.ib1.org/trust-framework''),
           (''steps'', JList [
              JObj [(''id'', JStr ''i''), (''type'', JStr ''permission'')],
              JObj [(''id'', JStr ''ii''), (''type'', JStr ''origin''),
                    (''permissions'', JList [JStr ''i''])],
              JObj [(''id'', JStr ''iii''), (''type'', JStr ''transfer''),
                    (''of'', JStr ''ii''), (''to'', JStr ''cap-member''),
                    (''permissions'', JList [JStr ''i''])]]),
           (''signatures'', JList [JStr ''signed''])]"

text \<open>An attachment without a signature, which \<open>lib_plain\<close> refuses to verify.\<close>

definition attachment_unsigned :: json where
  "attachment_unsigned =
     JObj [(''ib1:provenance'',
              JStr ''https://registry.core.sandbox.trust.ib1.org/trust-framework''),
           (''steps'', JList [
              JObj [(''id'', JStr ''iii''), (''type'', JStr ''transfer''),
                    (''to'', JStr ''cap-member'')]]),
           (''signatures'', JList [])]"

definition attachment_foreign :: json where
  "attachment_foreign =
     JObj [(''ib1:provenance'', JStr ''https://elsewhere.example/trust-framework''),
           (''steps'', JList [JObj [(''id'', JStr ''i''), (''type'', JStr ''permission'')]]),
           (''signatures'', JList [JStr ''signed''])]"

definition day_plain :: datetime where
  "day_plain = \<lparr>year = 2024, month = 1, day = 1, hour = 0, minute = 0, second = 0,
                 microsecond = 0, utcoffset = Some 0\<rparr>"

definition provider_plain :: certificate_provider where
  "provider_plain = CertificatesProviderSelfContainedRecord ''ROOT-PEM''"

definition signer_plain :: signer where
  "signer_plain = SignerInMemory provider_plain [''BUNDLE-PEM''] ''KEY-PEM''"

definition context_plain :: app_context where
  "context_plain = \<lparr>ctx_certificate_provider = Some provider_plain,
                      ctx_signer = Some signer_plain\<rparr>"

definition cap_run_plain :: "(exn + json) \<times> event list" where
  "cap_run_plain =
     create_cap_provenance_record env_plain lib_plain signer_plain provider_plain
       attachment_plain ''cap-member'' ''bank-member'' ''cap-account'' day_plain day_plain
       ''https://example.com/grid-origin'' ''https://example.com/grid-license'' ''AB12CD''
       ''https://example.com/edp'' ''edp-member'' ''https://example.com/bank''
       day_plain day_plain []"

definition cap_request_plain :: CapProvenanceRecordRequest where
  "cap_request_plain =
     \<lparr>capreq_edp_data_attachment = attachment_plain,
      capreq_cap_member_id = ''cap-member'',
      capreq_bank_member_id = ''bank-member'',
      capreq_cap_account = ''cap-account'',
      capreq_cap_permission_granted = day_plain,
      capreq_cap_permission_expires = day_plain,
      capreq_grid_intensity_origin = ''https://example.com/grid-origin'',
      capreq_grid_intensity_license = ''https://example.com/grid-license'',
      capreq_postcode = ''AB12CD'',
      capreq_edp_service_url = ''https://example.com/edp'',
      capreq_edp_member_id = ''edp-member'',
      capreq_bank_service_url = ''https://example.com/bank'',
      capreq_from_date = day_plain,
      capreq_to_date = day_plain\<rparr>"

text \<open>A timezone-aware instant with microseconds, as a JSON timestamp
  \<^verbatim>\<open>"2024-01-01T00:00:00.123456Z"\<close> is parsed.\<close>

definition instant_aware_micro :: datetime where
  "instant_aware_micro = \<lparr>year = 2024, month = 1, day = 1, hour = 0, minute = 0, second = 0,
                 microsecond = 123456, utcoffset = Some 0\<rparr>"

section \<open>Lemmas on the trace of a run\<close>

lemmas io_defs = bnd_def lift_def ret_def new_Record_def verify_def find_step_def add_step_def
  sign_def encoded_def decoded_def

lemmas payload_defs = edp_permission_step_def edp_origin_step_def edp_transfer_step_def
  cap_receipt_step_def cap_permission_step_def cap_intensity_origin_step_def
  cap_processing_step_def cap_transfer_step_def

lemma guarded_nth:
  "guarded g v t \<Longrightarrow> i < length t \<Longrightarrow> t ! i = Ev_add_step r p \<Longrightarrow> v \<or> (\<exists>j<i. t ! j = g)"
proof (induction t arbitrary: v i)
  case Nil
  then show ?case by simp
next
  case (Cons e es)
  show ?case
  proof (cases i)
    case 0
    with Cons.prems show ?thesis by simp
  next
    case (Suc k)
    show ?thesis
    proof (cases "\<exists>r p. e = Ev_add_step r p")
      case True
      with Cons.prems show ?thesis by auto
    next
      case False
      then have g: "guarded g (v \<or> e = g) es"
        using Cons.prems(1) by (cases e) auto
      have "k < length es" "es ! k = Ev_add_step r p"
        using Cons.prems(2,3) Suc by auto
      from Cons.IH[OF g this] have "(v \<or> e = g) \<or> (\<exists>j<k. es ! j = g)" .
      then show ?thesis
      proof (elim disjE)
        assume v then show ?thesis by simp
      next
        assume "e = g"
        then have "(e # es) ! 0 = g" by simp
        then show ?thesis using Suc by blast
      next
        assume "\<exists>j<k. es ! j = g"
        then obtain j where "j < k" "es ! j = g" by blast
        then have "Suc j < i" "(e # es) ! Suc j = g" using Suc by auto
        then show ?thesis by blast
      qed
    qed
  qed
qed

lemma is_add_stepD: "is_add_step e \<Longrightarrow> \<exists>r p. e = Ev_add_step r p"
  by (cases e) (simp_all add: is_add_step_def)

lemma cap_trace_guarded:
  assumes "Record_init L (JStr (conf_TRUST_FRAMEWORK_URL E)) (Some att) = Inr r0"
  shows "guarded (Ev_verify cp r0 True) False
     (snd (create_cap_provenance_record E L signer cp att cap_member_id bank_member_id
        cap_account granted expires grid_origin grid_license postcode edp_url
        edp_member bank_service_url from_date to_date []))"
  using assms
  by (simp add: create_cap_provenance_record_def io_defs
      split: sum.splits option.splits prod.splits)

lemma cap_run_plain_calls:
  "map is_add_step (snd cap_run_plain) =
     [False, False, False, True, True, True, True, True, False, False]"
  by (simp add: cap_run_plain_def create_cap_provenance_record_def io_defs
      Record_init_def lib_plain_def attachment_plain_def dict_getitem_def env_plain_def
      search_criteria_def provider_plain_def is_add_step_def)

section \<open>The receiving party verifies before it appends\<close>

lemma cap_add_step_on_loaded:
  assumes "Ev_add_step r p \<in> set (snd (create_cap_provenance_record E L signer cp att
        cap_member_id bank_member_id cap_account granted expires grid_origin grid_license
        postcode edp_url edp_member bank_service_url from_date to_date []))"
    and "Record_init L (JStr (conf_TRUST_FRAMEWORK_URL E)) (Some att) = Inr r0"
  shows "lib_verify L cp r0 = None
     \<and> rec_trust_framework r = rec_trust_framework r0
     \<and> rec_loaded_from r = rec_loaded_from r0
     \<and> take (length (rec_steps r0)) (rec_steps r) = rec_steps r0"
  using assms
  by (auto simp: create_cap_provenance_record_def io_defs
      split: sum.splits option.splits prod.splits if_splits)

lemma Record_init_loaded:
  "Record_init L tf (Some att) = Inr r0 \<Longrightarrow>
   rec_trust_framework r0 = tf \<and> rec_loaded_from r0 = Some att"
  by (auto simp: Record_init_def split: sum.splits if_splits)

text \<open>
  A run on an attachment whose signatures the library refuses ends at \<^verbatim>\<open>verify\<close>:
  nothing is looked up and nothing is appended.
\<close>

lemma cap_run_refused:
  "create_cap_provenance_record env_plain lib_plain signer_plain provider_plain
       attachment_unsigned ''cap-member'' ''bank-member'' ''cap-account'' day_plain day_plain
       ''https://example.com/grid-origin'' ''https://example.com/grid-license'' ''AB12CD''
       ''https://example.com/edp'' ''edp-member'' ''https://example.com/bank''
       day_plain day_plain []
    = (Inl SignatureInvalidError,
       [Ev_Record (JStr (conf_TRUST_FRAMEWORK_URL env_plain)) (Some attachment_unsigned),
        Ev_verify provider_plain
          \<lparr>rec_trust_framework = JStr (conf_TRUST_FRAMEWORK_URL env_plain),
           rec_loaded_from = Some attachment_unsigned,
           rec_steps = [JObj [(''id'', JStr ''iii''), (''type'', JStr ''transfer''),
                    (''to'', JStr ''cap-member'')]]\<rparr> False])"
  by (simp add: create_cap_provenance_record_def io_defs Record_init_def lib_plain_def
      attachment_unsigned_def dict_getitem_def env_plain_def)

text \<open>
  C1. In every run of \<^verbatim>\<open>create_cap_provenance_record\<close>, also one that ends in an
  exception, each \<^verbatim>\<open>add_step\<close> call of the trace comes after a \<^verbatim>\<open>verify\<close> call that
  returned, made with the certificate provider passed in on the record reconstructed
  from the attachment under the configured trust framework: the library's check of that
  record against that provider raised nothing. The record an \<^verbatim>\<open>add_step\<close> call appends
  to is that verified record with the steps appended since: it has the same trust
  framework and attachment, and its chain starts with the verified steps.
\<close>

theorem cap_add_step_after_verify:
  assumes "create_cap_provenance_record E L signer cp att cap_member_id bank_member_id
        cap_account granted expires grid_origin grid_license postcode edp_url
        edp_member bank_service_url from_date to_date [] = (res, t)"
    and "i < length t"
    and "t ! i = Ev_add_step r p"
  shows "\<exists>j<i. \<exists>r0. Record_init L (JStr (conf_TRUST_FRAMEWORK_URL E)) (Some att) = Inr r0
            \<and> lib_verify L cp r0 = None
            \<and> t ! j = Ev_verify cp r0 True
            \<and> rec_trust_framework r = JStr (conf_TRUST_FRAMEWORK_URL E)
            \<and> rec_loaded_from r = Some att
            \<and> take (length (rec_steps r0)) (rec_steps r) = rec_steps r0"
proof (cases "Record_init L (JStr (conf_TRUST_FRAMEWORK_URL E)) (Some att)")
  case (Inl e)
  then have "t = [Ev_Record (JStr (conf_TRUST_FRAMEWORK_URL E)) (Some att)]"
    using assms(1) by (simp add: create_cap_provenance_record_def io_defs)
  with assms(2,3) show ?thesis by simp
next
  case (Inr r0)
  have t: "t = snd (create_cap_provenance_record E L signer cp att cap_member_id
        bank_member_id cap_account granted expires grid_origin grid_license postcode edp_url
        edp_member bank_service_url from_date to_date [])"
    using assms(1) by simp
  have "Ev_add_step r p \<in> set t"
    using assms(2,3) nth_mem by fastforce
  from cap_add_step_on_loaded[OF this[unfolded t] Inr] Record_init_loaded[OF Inr]
  have on: "lib_verify L cp r0 = None"
    "rec_trust_framework r = JStr (conf_TRUST_FRAMEWORK_URL E)"
    "rec_loaded_from r = Some att"
    "take (length (rec_steps r0)) (rec_steps r) = rec_steps r0"
    by simp_all
  have "guarded (Ev_verify cp r0 True) False t"
    unfolding t by (rule cap_trace_guarded[OF Inr])
  from guarded_nth[OF this assms(2,3)] Inr on show ?thesis by blast
qed

theorem cap_add_step_after_verify_witness:
  "\<exists>j<3. \<exists>r0. Record_init lib_plain (JStr (conf_TRUST_FRAMEWORK_URL env_plain))
                 (Some attachment_plain) = Inr r0
            \<and> lib_verify lib_plain provider_plain r0 = None
            \<and> snd cap_run_plain ! j = Ev_verify provider_plain r0 True"
proof -
  have run: "create_cap_provenance_record env_plain lib_plain signer_plain provider_plain
       attachment_plain ''cap-member'' ''bank-member'' ''cap-account'' day_plain day_plain
       ''https://example.com/grid-origin'' ''https://example.com/grid-license'' ''AB12CD''
       ''https://example.com/edp'' ''edp-member'' ''https://example.com/bank''
       day_plain day_plain [] = (fst cap_run_plain, snd cap_run_plain)"
    by (simp add: cap_run_plain_def)
  have len: "length (snd cap_run_plain) = 10"
    using arg_cong[OF cap_run_plain_calls, of length] by simp
  then have lt: "3 < length (snd cap_run_plain)" by simp
  have "is_add_step (snd cap_run_plain ! 3)"
    using nth_map[of 3 "snd cap_run_plain" is_add_step] lt cap_run_plain_calls by simp
  then obtain r p where "snd cap_run_plain ! 3 = Ev_add_step r p"
    using is_add_stepD by blast
  from cap_add_step_after_verify[OF run lt this] show ?thesis by blast
qed

section \<open>References of the appended steps\<close>

lemma find_in_set: "find P xs = Some x \<Longrightarrow> x \<in> set xs"
  by (induction xs) (auto split: if_splits)

lemma resolves_in_append:
  "resolves_in (chain @ later) v = (resolves_in chain v \<or> resolves_in later v)"
  by (auto simp: resolves_in_def list_ex_iff)

lemma resolves_in_list:
  "resolves_in [] v = False"
  "resolves_in (s # chain) v = (dict_getitem s ''id'' = Inr v \<or> resolves_in chain v)"
  by (auto simp: resolves_in_def)

lemma resolves_in_found:
  "find P chain = Some s \<Longrightarrow> dict_getitem s ''id'' = Inr v \<Longrightarrow> resolves_in chain v"
  by (auto simp: resolves_in_def list_ex_iff dest: find_in_set)

lemma payload_references:
  "references (edp_permission_step E g e a) = []"
  "references (edp_origin_step E f t ou ol pid) = [JStr pid]"
  "references (edp_transfer_step E f t su fid cm oid pid) = [JStr oid, JStr pid]"
  "references (cap_receipt_step tid) = [tid]"
  "references (cap_permission_step E g e a) = []"
  "references (cap_intensity_origin_step E f t go gl pc) = []"
  "references (cap_processing_step E rid oid pid) = [JStr rid, JStr oid, JStr pid]"
  "references (cap_transfer_step E f t bm bs prid pid) = [JStr prid, JStr pid]"
  by (simp_all add: payload_defs references_def listed_def)

lemma payload_ids:
  "dict_getitem (set_id i (edp_permission_step E g e a)) ''id'' = Inr (JStr i)"
  "dict_getitem (set_id i (edp_origin_step E f t ou ol pid)) ''id'' = Inr (JStr i)"
  "dict_getitem (set_id i (edp_transfer_step E f t su fid cm oid pid)) ''id'' = Inr (JStr i)"
  "dict_getitem (set_id i (cap_receipt_step tid)) ''id'' = Inr (JStr i)"
  "dict_getitem (set_id i (cap_permission_step E g e a)) ''id'' = Inr (JStr i)"
  "dict_getitem (set_id i (cap_intensity_origin_step E f t go gl pc)) ''id'' = Inr (JStr i)"
  "dict_getitem (set_id i (cap_processing_step E rid oid pid)) ''id'' = Inr (JStr i)"
  "dict_getitem (set_id i (cap_transfer_step E f t bm bs prid pid)) ''id'' = Inr (JStr i)"
  by (simp_all add: payload_defs set_id_def dict_getitem_def)

lemma edp_references_resolve:
  assumes "Ev_add_step r p \<in> set (snd (create_edp_provenance_record E L signer from_date
      to_date granted expires service_url account fapi_id cap_member origin_url
      origin_license_url []))"
  shows "list_all (resolves_in (rec_steps r)) (references p)"
  using assms
  by (auto simp: create_edp_provenance_record_def io_defs Record_init_def
      payload_references payload_ids resolves_in_append resolves_in_list
      split: sum.splits option.splits prod.splits if_splits)

lemma cap_references_resolve:
  assumes "Ev_add_step r p \<in> set (snd (create_cap_provenance_record E L signer cp att
        cap_member_id bank_member_id cap_account granted expires grid_origin grid_license
        postcode edp_url edp_member bank_service_url from_date to_date []))"
  shows "list_all (resolves_in (rec_steps r)) (references p)"
  using assms
  by (auto simp: create_cap_provenance_record_def io_defs
      payload_references payload_ids resolves_in_append resolves_in_list
      split: sum.splits option.splits prod.splits if_splits
      intro: resolves_in_found)

text \<open>
  C4. Whenever either workflow calls \<^verbatim>\<open>add_step\<close>, every reference of the payload
  (\<^verbatim>\<open>"of"\<close>, \<^verbatim>\<open>"transfer"\<close>, \<^verbatim>\<open>"inputs"\<close>, \<^verbatim>\<open>"permissions"\<close>) is the id of a step
  of the chain as it is at that call, that is, of a step strictly earlier than the one
  being appended: an id returned by an earlier \<^verbatim>\<open>add_step\<close>, or the id of the transfer
  step that \<^verbatim>\<open>find_step\<close> located.
\<close>

theorem appended_references_resolve:
  "(Ev_add_step r p \<in> set (snd (create_edp_provenance_record E L signer from_date
        to_date granted expires service_url account fapi_id cap_member origin_url
        origin_license_url [])) \<longrightarrow>
      list_all (resolves_in (rec_steps r)) (references p))
   \<and> (Ev_add_step r' p' \<in> set (snd (create_cap_provenance_record E L signer cp att
        cap_member_id bank_member_id cap_account cap_granted cap_expires grid_origin
        grid_license postcode edp_url edp_member bank_service_url from_date to_date [])) \<longrightarrow>
      list_all (resolves_in (rec_steps r')) (references p'))"
proof (intro conjI impI)
  assume "Ev_add_step r p \<in> set (snd (create_edp_provenance_record E L signer from_date
        to_date granted expires service_url account fapi_id cap_member origin_url
        origin_license_url []))"
  then show "list_all (resolves_in (rec_steps r)) (references p)"
    by (rule edp_references_resolve)
next
  assume "Ev_add_step r' p' \<in> set (snd (create_cap_provenance_record E L signer cp att
        cap_member_id bank_member_id cap_account cap_granted cap_expires grid_origin
        grid_license postcode edp_url edp_member bank_service_url from_date to_date []))"
  then show "list_all (resolves_in (rec_steps r')) (references p')"
    by (rule cap_references_resolve)
qed

lemma cap_run_plain_processing:
  "\<exists>r. snd cap_run_plain ! 6
        = Ev_add_step r (cap_processing_step env_plain ''iiii'' ''iiiiii'' ''iiiii'')"
  by (simp add: cap_run_plain_def create_cap_provenance_record_def io_defs
      Record_init_def lib_plain_def attachment_plain_def dict_getitem_def env_plain_def
      search_criteria_def provider_plain_def)

theorem appended_references_resolve_witness:
  "\<exists>r. Ev_add_step r (cap_processing_step env_plain ''iiii'' ''iiiiii'' ''iiiii'')
          \<in> set (snd cap_run_plain)
      \<and> list_all (resolves_in (rec_steps r)) [JStr ''iiii'', JStr ''iiiiii'', JStr ''iiiii'']"
proof -
  obtain r where r: "snd cap_run_plain ! 6
        = Ev_add_step r (cap_processing_step env_plain ''iiii'' ''iiiiii'' ''iiiii'')"
    using cap_run_plain_processing by blast
  have "length (snd cap_run_plain) = 10"
    using arg_cong[OF cap_run_plain_calls, of length] by simp
  then have "snd cap_run_plain ! 6 \<in> set (snd cap_run_plain)" by simp
  with r have m: "Ev_add_step r (cap_processing_step env_plain ''iiii'' ''iiiiii'' ''iiiii'')
          \<in> set (snd cap_run_plain)" by simp
  have "list_all (resolves_in (rec_steps r))
      (references (cap_processing_step env_plain ''iiii'' ''iiiiii'' ''iiiii''))"
    by (rule appended_references_resolve[THEN conjunct2, THEN mp,
          OF m[unfolded cap_run_plain_def]])
  with m show ?thesis by (auto simp: payload_references)
qed

section \<open>The decode endpoint\<close>

lemma decode_run:
  "decode_provenance_record L ctx enc [] =
     (case dict_getitem enc ''ib1:provenance'' of
        Inl e \<Rightarrow> (Inl e, [])
      | Inr tf \<Rightarrow>
         (case Record_init L tf (Some enc) of
            Inl e \<Rightarrow> (Inl e, [Ev_Record tf (Some enc)])
          | Inr r \<Rightarrow>
             (case ctx_certificate_provider ctx of
                None \<Rightarrow> (Inl (KeyError ''certificate_provider''), [Ev_Record tf (Some enc)])
              | Some cp \<Rightarrow>
                 (case lib_verify L cp r of
                    Some e \<Rightarrow> (Inl e, [Ev_Record tf (Some enc), Ev_verify cp r False])
                  | None \<Rightarrow>
                      (lib_decoded L r,
                       [Ev_Record tf (Some enc), Ev_verify cp r True, Ev_decoded r])))))"
  by (simp add: decode_provenance_record_def io_defs context_certificate_provider_def
      split: sum.splits option.splits)

text \<open>
  C10. \<^verbatim>\<open>decode_provenance_record\<close> returns the decoded steps only if \<^verbatim>\<open>verify\<close>
  returned for the record against the certificate provider of the process context; in
  every run, \<^verbatim>\<open>decoded\<close> is called only after that \<^verbatim>\<open>verify\<close> call.
\<close>

theorem decode_only_after_verify:
  assumes "decode_provenance_record L ctx enc [] = (res, t)"
  shows "(\<forall>d. res = Inr d \<longrightarrow>
            (\<exists>tf r cp. dict_getitem enc ''ib1:provenance'' = Inr tf
               \<and> Record_init L tf (Some enc) = Inr r
               \<and> ctx_certificate_provider ctx = Some cp
               \<and> lib_verify L cp r = None
               \<and> lib_decoded L r = Inr d))
       \<and> (\<forall>i r. i < length t \<and> t ! i = Ev_decoded r \<longrightarrow>
            (\<exists>j<i. \<exists>cp. ctx_certificate_provider ctx = Some cp
               \<and> lib_verify L cp r = None \<and> t ! j = Ev_verify cp r True))"
proof (intro conjI allI impI)
  fix d assume "res = Inr d"
  with assms show "\<exists>tf r cp. dict_getitem enc ''ib1:provenance'' = Inr tf
               \<and> Record_init L tf (Some enc) = Inr r
               \<and> ctx_certificate_provider ctx = Some cp
               \<and> lib_verify L cp r = None
               \<and> lib_decoded L r = Inr d"
    by (auto simp: decode_run split: sum.splits option.splits)
next
  fix i r assume "i < length t \<and> t ! i = Ev_decoded r"
  with assms show "\<exists>j<i. \<exists>cp. ctx_certificate_provider ctx = Some cp
               \<and> lib_verify L cp r = None \<and> t ! j = Ev_verify cp r True"
    by (auto simp: decode_run nth_Cons' less_Suc_eq split: sum.splits option.splits if_splits)
qed

lemma decode_foreign_run:
  "decode_provenance_record lib_plain context_plain attachment_foreign [] =
     (Inr (JList [JObj [(''id'', JStr ''i''), (''type'', JStr ''permission'')]]),
      [Ev_Record (JStr ''https://elsewhere.example/trust-framework'') (Some attachment_foreign),
       Ev_verify provider_plain
         \<lparr>rec_trust_framework = JStr ''https://elsewhere.example/trust-framework'',
          rec_loaded_from = Some attachment_foreign,
          rec_steps = [JObj [(''id'', JStr ''i''), (''type'', JStr ''permission'')]]\<rparr> True,
       Ev_decoded
         \<lparr>rec_trust_framework = JStr ''https://elsewhere.example/trust-framework'',
          rec_loaded_from = Some attachment_foreign,
          rec_steps = [JObj [(''id'', JStr ''i''), (''type'', JStr ''permission'')]]\<rparr>])"
  by (simp add: decode_run Record_init_def lib_plain_def context_plain_def
      attachment_foreign_def dict_getitem_def)

lemma decode_plain_result:
  "fst (decode_provenance_record lib_plain context_plain attachment_plain []) =
     Inr (JList [
              JObj [(''id'', JStr ''i''), (''type'', JStr ''permission'')],
              JObj [(''id'', JStr ''ii''), (''type'', JStr ''origin''),
                    (''permissions'', JList [JStr ''i''])],
              JObj [(''id'', JStr ''iii''), (''type'', JStr ''transfer''),
                    (''of'', JStr ''ii''), (''to'', JStr ''cap-member''),
                    (''permissions'', JList [JStr ''i''])]])"
  by (simp add: decode_run Record_init_def lib_plain_def context_plain_def
      attachment_plain_def dict_getitem_def)

theorem decode_only_after_verify_witness:
  "\<exists>tf r cp. dict_getitem attachment_plain ''ib1:provenance'' = Inr tf
      \<and> Record_init lib_plain tf (Some attachment_plain) = Inr r
      \<and> ctx_certificate_provider context_plain = Some cp
      \<and> lib_verify lib_plain cp r = None
      \<and> lib_decoded lib_plain r =
          fst (decode_provenance_record lib_plain context_plain attachment_plain [])"
proof -
  obtain d where d: "fst (decode_provenance_record lib_plain context_plain attachment_plain [])
      = Inr d"
    using decode_plain_result by blast
  have run: "decode_provenance_record lib_plain context_plain attachment_plain []
      = (Inr d, snd (decode_provenance_record lib_plain context_plain attachment_plain []))"
    using d by (metis prod.collapse)
  from decode_only_after_verify[OF run] d show ?thesis by simp
qed

section \<open>Error translation of the sign endpoints\<close>

text \<open>
  C7. An exception raised in the body of a sign endpoint becomes an
  \<^verbatim>\<open>HTTPException\<close> chosen by its class: 400 for a \<^verbatim>\<open>ValueError\<close> or a
  \<^verbatim>\<open>FrameworkAuthError\<close>, with the exception's message as detail (a fixed text when the
  message is empty); otherwise 503 with a fixed detail for a \<^verbatim>\<open>ConfigurationError\<close>;
  otherwise 500 with a detail made of the action's name only.
\<close>

theorem try_endpoint_by_class:
  assumes "body t = (Inl exc, t')"
  shows "\<exists>h. try_endpoint action body t = (Inl h, t')
     \<and> (isinstance exc ''ValueError'' \<or> isinstance exc ''FrameworkAuthError'' \<longrightarrow>
          status_code h = 400
          \<and> detail h = (if exn_str exc \<noteq> [] then exn_str exc
                        else ''Unable to '' @ action @ '' due to invalid input.''))
     \<and> (\<not> isinstance exc ''ValueError'' \<and> \<not> isinstance exc ''FrameworkAuthError''
          \<and> isinstance exc ''ConfigurationError'' \<longrightarrow>
          h = HTTPException 503
                ''Signing service is not properly configured. Please try again later.'')
     \<and> (\<not> isinstance exc ''ValueError'' \<and> \<not> isinstance exc ''FrameworkAuthError''
          \<and> \<not> isinstance exc ''ConfigurationError'' \<longrightarrow>
          h = HTTPException 500 (''Unable to '' @ action @ '' at this time.''))"
  using assms by (simp add: try_endpoint_def handle_endpoint_exception_def)

theorem try_endpoint_by_class_witness:
  "(\<exists>h. try_endpoint ''create CAP provenance record''
           (lift (Inl (ValueError ''Cap creation failed''))) [] = (Inl h, [])
        \<and> status_code h = 400 \<and> detail h = ''Cap creation failed'')
   \<and> (\<exists>h. sign_cap env_plain lib_plain
             \<lparr>ctx_certificate_provider = None, ctx_signer = None\<rparr> cap_request_plain []
           = (Inl h, [])
        \<and> h = HTTPException 500 ''Unable to create CAP provenance record at this time.'')"
proof
  have "lift (Inl (ValueError ''Cap creation failed'')) [] = (Inl (ValueError ''Cap creation failed''), [])"
    by (simp add: lift_def)
  from try_endpoint_by_class[where body = "lift (Inl (ValueError ''Cap creation failed''))"
      and t = "[]" and action = "''create CAP provenance record''", OF this]
  show "\<exists>h. try_endpoint ''create CAP provenance record''
           (lift (Inl (ValueError ''Cap creation failed''))) [] = (Inl h, [])
        \<and> status_code h = 400 \<and> detail h = ''Cap creation failed''"
    by (auto simp: ValueError_def isinstance_def)
next
  show "\<exists>h. sign_cap env_plain lib_plain
             \<lparr>ctx_certificate_provider = None, ctx_signer = None\<rparr> cap_request_plain []
           = (Inl h, [])
        \<and> h = HTTPException 500 ''Unable to create CAP provenance record at this time.''"
    by (simp add: sign_cap_def try_endpoint_def handle_endpoint_exception_def io_defs
        context_signer_def KeyError_def isinstance_def)
qed

section \<open>Re-opening an encoded record\<close>

lemma cap_record_event:
  assumes "Ev_Record tf a \<in> set (snd (create_cap_provenance_record E L signer cp att
        cap_member_id bank_member_id cap_account granted expires grid_origin grid_license
        postcode edp_url edp_member bank_service_url from_date to_date []))"
  shows "tf = JStr (conf_TRUST_FRAMEWORK_URL E) \<and> a = Some att"
  using assms
  by (auto simp: create_cap_provenance_record_def io_defs
      split: sum.splits option.splits prod.splits if_splits)

lemma cap_mismatch:
  assumes "lib_decode L att = Inr steps"
    and "dict_getitem att ''ib1:provenance'' = Inr embedded"
    and "embedded \<noteq> JStr (conf_TRUST_FRAMEWORK_URL E)"
  shows "create_cap_provenance_record E L signer cp att
        cap_member_id bank_member_id cap_account granted expires grid_origin grid_license
        postcode edp_url edp_member bank_service_url from_date to_date []
      = (Inl TrustFrameworkMismatch,
         [Ev_Record (JStr (conf_TRUST_FRAMEWORK_URL E)) (Some att)])"
  using assms by (simp add: create_cap_provenance_record_def io_defs Record_init_def)

lemma decode_record_event:
  assumes "Ev_Record tf a \<in> set (snd (decode_provenance_record L ctx enc []))"
  shows "dict_getitem enc ''ib1:provenance'' = Inr tf \<and> a = Some enc"
  using assms by (auto simp: decode_run split: sum.splits option.splits)

text \<open>
  C3, as amended. Every re-open goes through \<^verbatim>\<open>Record(trust_framework, artifact)\<close>,
  which compares the id supplied with the id embedded in the artifact.
  \<^verbatim>\<open>create_cap_provenance_record\<close> supplies the configured \<^verbatim>\<open>TRUST_FRAMEWORK_URL\<close>, so
  an attachment of another trust framework is refused with \<open>TrustFrameworkMismatch\<close>
  before any other call. \<^verbatim>\<open>decode_provenance_record\<close> supplies the id it reads out of
  the artifact, so there the comparison cannot fail.
\<close>

theorem reopen_trust_framework:
  "(Ev_Record tf a \<in> set (snd (create_cap_provenance_record E L signer cp att
        cap_member_id bank_member_id cap_account granted expires grid_origin grid_license
        postcode edp_url edp_member bank_service_url from_date to_date [])) \<longrightarrow>
      tf = JStr (conf_TRUST_FRAMEWORK_URL E) \<and> a = Some att)
   \<and> (lib_decode L att = Inr steps \<and> dict_getitem att ''ib1:provenance'' = Inr embedded
        \<and> embedded \<noteq> JStr (conf_TRUST_FRAMEWORK_URL E) \<longrightarrow>
      create_cap_provenance_record E L signer cp att
        cap_member_id bank_member_id cap_account granted expires grid_origin grid_license
        postcode edp_url edp_member bank_service_url from_date to_date []
      = (Inl TrustFrameworkMismatch,
         [Ev_Record (JStr (conf_TRUST_FRAMEWORK_URL E)) (Some att)]))
   \<and> (Ev_Record tf' a' \<in> set (snd (decode_provenance_record L ctx enc [])) \<longrightarrow>
      dict_getitem enc ''ib1:provenance'' = Inr tf' \<and> a' = Some enc)
   \<and> (dict_getitem enc ''ib1:provenance'' = Inr tf' \<and> lib_decode L enc = Inr steps' \<longrightarrow>
      Record_init L tf' (Some enc)
      = Inr \<lparr>rec_trust_framework = tf', rec_loaded_from = Some enc, rec_steps = steps'\<rparr>)"
proof (intro conjI impI)
  assume "Ev_Record tf a \<in> set (snd (create_cap_provenance_record E L signer cp att
        cap_member_id bank_member_id cap_account granted expires grid_origin grid_license
        postcode edp_url edp_member bank_service_url from_date to_date []))"
  from cap_record_event[OF this]
  show "tf = JStr (conf_TRUST_FRAMEWORK_URL E)" and "a = Some att" by simp_all
next
  assume "lib_decode L att = Inr steps \<and> dict_getitem att ''ib1:provenance'' = Inr embedded
        \<and> embedded \<noteq> JStr (conf_TRUST_FRAMEWORK_URL E)"
  then show "create_cap_provenance_record E L signer cp att
        cap_member_id bank_member_id cap_account granted expires grid_origin grid_license
        postcode edp_url edp_member bank_service_url from_date to_date []
      = (Inl TrustFrameworkMismatch,
         [Ev_Record (JStr (conf_TRUST_FRAMEWORK_URL E)) (Some att)])"
    using cap_mismatch by blast
next
  assume "Ev_Record tf' a' \<in> set (snd (decode_provenance_record L ctx enc []))"
  from decode_record_event[OF this]
  show "dict_getitem enc ''ib1:provenance'' = Inr tf'" and "a' = Some enc" by simp_all
next
  assume "dict_getitem enc ''ib1:provenance'' = Inr tf' \<and> lib_decode L enc = Inr steps'"
  then show "Record_init L tf' (Some enc)
      = Inr \<lparr>rec_trust_framework = tf', rec_loaded_from = Some enc, rec_steps = steps'\<rparr>"
    by (simp add: Record_init_def)
qed

theorem reopen_trust_framework_witness:
  "create_cap_provenance_record env_plain lib_plain signer_plain provider_plain
       attachment_foreign ''cap-member'' ''bank-member'' ''cap-account'' day_plain day_plain
       ''https://example.com/grid-origin'' ''https://example.com/grid-license'' ''AB12CD''
       ''https://example.com/edp'' ''edp-member'' ''https://example.com/bank''
       day_plain day_plain []
     = (Inl TrustFrameworkMismatch,
        [Ev_Record (JStr (conf_TRUST_FRAMEWORK_URL env_plain)) (Some attachment_foreign)])"
proof -
  have "lib_decode lib_plain attachment_foreign
          = Inr [JObj [(''id'', JStr ''i''), (''type'', JStr ''permission'')]]
      \<and> dict_getitem attachment_foreign ''ib1:provenance''
          = Inr (JStr ''https://elsewhere.example/trust-framework'')
      \<and> JStr ''https://elsewhere.example/trust-framework''
          \<noteq> JStr (conf_TRUST_FRAMEWORK_URL env_plain)"
    by (simp add: lib_plain_def attachment_foreign_def dict_getitem_def env_plain_def)
  from reopen_trust_framework[THEN conjunct2, THEN conjunct1, THEN mp, OF this]
  show ?thesis .
qed

theorem decode_supplies_embedded_id_counterexample:
  "fst (decode_provenance_record lib_plain context_plain attachment_foreign [])
     = Inr (JList [JObj [(''id'', JStr ''i''), (''type'', JStr ''permission'')]])
   \<and> hd (snd (decode_provenance_record lib_plain context_plain attachment_foreign []))
     = Ev_Record (JStr ''https://elsewhere.example/trust-framework'') (Some attachment_foreign)
   \<and> dict_getitem attachment_foreign ''ib1:provenance''
     = Inr (JStr ''https://elsewhere.example/trust-framework'')
   \<and> ''https://elsewhere.example/trust-framework'' \<noteq> conf_TRUST_FRAMEWORK_URL env_plain"
  by (simp add: decode_foreign_run) (simp add: attachment_foreign_def dict_getitem_def env_plain_def)

section \<open>Loading certificates\<close>

lemma split_from_absent:
  "sep \<noteq> [] \<Longrightarrow> \<not> contains s sep \<Longrightarrow> split_from sep k acc s = [rev acc @ s]"
  by (induction s arbitrary: acc) auto

lemma split_from_no_cut: "split_from sep 0 acc s = [rev acc @ s]"
  by (induction s arbitrary: acc) auto

lemma split_from_first_slash:
  "CHR ''/'' \<notin> set bucket \<Longrightarrow>
   split_from ''/'' 1 acc (bucket @ CHR ''/'' # key) = [rev acc @ bucket, key]"
  by (induction bucket arbitrary: acc) (auto simp: startswith_def split_from_no_cut)

lemma secret_store_unread:
  "get_certificate (E\<lparr>ssm_parameters := store\<rparr>) path = get_certificate E path"
  "kms_tier (E\<lparr>ssm_parameters := store\<rparr>) cp certs = kms_tier E cp certs"
  "file_tier (E\<lparr>ssm_parameters := store\<rparr>) cp certs = file_tier E cp certs"
  by (simp_all add: get_certificate_def open_rb_def kms_tier_def file_tier_def
      cong: sum.case_cong option.case_cong list.case_cong if_cong)

lemma get_certificate_s3:
  assumes "boto3_client E ''s3'' = None"
    and "CHR ''/'' \<notin> set bucket"
    and "\<not> contains (bucket @ ''/'' @ key) ''s3://''"
  shows "get_certificate E (''s3://'' @ bucket @ ''/'' @ key) = s3_get_object E bucket key"
  using assms
  by (simp add: get_certificate_def startswith_def py_split_def list_getitem_def
      split_from_absent split_from_first_slash)

text \<open>
  C5, as amended. \<^verbatim>\<open>get_certificate\<close> returns the bytes of a local file, and for a
  locator \<^verbatim>\<open>s3://bucket/key\<close> (no \<^verbatim>\<open>/\<close> in the bucket, no further \<^verbatim>\<open>s3://\<close> inside) what
  the object store returns for that bucket and key. When the locator cannot be read the
  error of the read itself comes out unchanged: \<^verbatim>\<open>FileNotFoundError\<close> for an absent
  file, the error of \<^verbatim>\<open>open\<close> or of the storage client otherwise.
\<close>

theorem get_certificate_reads_locator:
  "(\<not> startswith path ''s3://'' \<and> files E path = Some (Inr bytes) \<longrightarrow>
      get_certificate E path = Inr bytes)
   \<and> (\<not> startswith path ''s3://'' \<and> files E path = None \<longrightarrow>
      get_certificate E path = Inl (FileNotFoundError path)
      \<and> exn_mro (FileNotFoundError path) = [''FileNotFoundError'', ''OSError'', ''Exception''])
   \<and> (\<not> startswith path ''s3://'' \<and> files E path = Some (Inl e) \<longrightarrow>
      get_certificate E path = Inl e)
   \<and> (boto3_client E ''s3'' = None \<and> CHR ''/'' \<notin> set bucket
        \<and> \<not> contains (bucket @ ''/'' @ key) ''s3://'' \<longrightarrow>
      get_certificate E (''s3://'' @ bucket @ ''/'' @ key) = s3_get_object E bucket key)"
proof (intro conjI impI)
  assume "\<not> startswith path ''s3://'' \<and> files E path = Some (Inr bytes)"
  then show "get_certificate E path = Inr bytes"
    by (simp add: get_certificate_def open_rb_def)
next
  assume "\<not> startswith path ''s3://'' \<and> files E path = None"
  then show "get_certificate E path = Inl (FileNotFoundError path)"
    by (simp add: get_certificate_def open_rb_def)
next
  show "exn_mro (FileNotFoundError path) = [''FileNotFoundError'', ''OSError'', ''Exception'']"
    by (simp add: FileNotFoundError_def)
next
  assume "\<not> startswith path ''s3://'' \<and> files E path = Some (Inl e)"
  then show "get_certificate E path = Inl e"
    by (simp add: get_certificate_def open_rb_def)
next
  assume "boto3_client E ''s3'' = None \<and> CHR ''/'' \<notin> set bucket
        \<and> \<not> contains (bucket @ ''/'' @ key) ''s3://''"
  then show "get_certificate E (''s3://'' @ bucket @ ''/'' @ key) = s3_get_object E bucket key"
    using get_certificate_s3 by blast
qed

theorem get_certificate_reads_locator_witness:
  "get_certificate env_plain ''/certs/root-ca.pem'' = Inr ''ROOT-PEM''
   \<and> get_certificate env_plain ''s3://trust-bucket/certs/root-ca.pem'' = Inr ''ROOT-PEM''"
proof
  have "\<not> startswith ''/certs/root-ca.pem'' ''s3://''
      \<and> files env_plain ''/certs/root-ca.pem'' = Some (Inr ''ROOT-PEM'')"
    by (simp add: startswith_def env_plain_def)
  from get_certificate_reads_locator[THEN conjunct1, THEN mp, OF this]
  show "get_certificate env_plain ''/certs/root-ca.pem'' = Inr ''ROOT-PEM''" .
next
  have "boto3_client env_plain ''s3'' = None \<and> CHR ''/'' \<notin> set ''trust-bucket''
      \<and> \<not> contains (''trust-bucket'' @ ''/'' @ ''certs/root-ca.pem'') ''s3://''"
    by (simp add: env_plain_def startswith_def)
  from get_certificate_reads_locator[THEN conjunct2, THEN conjunct2, THEN conjunct2, THEN mp,
      OF this]
  show "get_certificate env_plain ''s3://trust-bucket/certs/root-ca.pem'' = Inr ''ROOT-PEM''"
    by (simp add: env_plain_def)
qed

theorem get_certificate_absent_file_counterexample:
  "get_certificate env_plain ''/certs/absent.pem'' = Inl (FileNotFoundError ''/certs/absent.pem'')
   \<and> \<not> isinstance (FileNotFoundError ''/certs/absent.pem'') ''CertificateNotFoundError''"
  by (simp add: get_certificate_def startswith_def open_rb_def env_plain_def
      isinstance_def FileNotFoundError_def)

section \<open>Resolving the signer\<close>

text \<open>
  C6. Once the signer's certificate chain is loaded: if the key-management tier is not
  configured (\<^verbatim>\<open>KMS_KEY_ID\<close> unset or empty) or fails (the client or the signer
  constructor raises), and the file at \<^verbatim>\<open>conf.SIGNING_KEY\<close> does not exist,
  \<^verbatim>\<open>get_signer\<close> raises \<^verbatim>\<open>KeyNotFoundError\<close>; no signer is returned.
\<close>

theorem get_signer_key_file_missing:
  assumes "conf_SIGNING_BUNDLE E = Some bundle"
    and "get_certificate E bundle = Inr pem"
    and "load_pem_x509_certificates E pem = Inr certificates"
    and "environ_KMS_KEY_ID E = None \<or> environ_KMS_KEY_ID E = Some []
         \<or> boto3_client E ''kms'' \<noteq> None
         \<or> (\<exists>k. environ_KMS_KEY_ID E = Some k
               \<and> init_SignerKMS E cp certificates k \<noteq> None)"
    and "conf_SIGNING_KEY E = Some path"
    and "files E path = None"
  shows "get_signer E cp =
           Inl (KeyNotFoundError (KeyNotFoundError_bases E)
             ''Signing key not found in KMS or local file, check configuration.'')
         \<and> isinstance (KeyNotFoundError (KeyNotFoundError_bases E)
             ''Signing key not found in KMS or local file, check configuration.'')
             ''KeyNotFoundError''"
proof -
  have "kms_tier E cp certificates = None"
    using assms(4) by (auto simp: kms_tier_def split: option.splits)
  moreover have "file_tier E cp certificates =
      Inl (KeyNotFoundError (KeyNotFoundError_bases E)
        ''Signing key not found in KMS or local file, check configuration.'')"
    using assms(5,6)
    by (simp add: file_tier_def open_rb_def isinstance_def FileNotFoundError_def)
  ultimately show ?thesis
    using assms(1-3) by (simp add: get_signer_def isinstance_def KeyNotFoundError_def)
qed

theorem get_signer_key_file_missing_witness:
  "get_signer env_kms_down provider_plain =
     Inl (KeyNotFoundError [''Exception'']
       ''Signing key not found in KMS or local file, check configuration.'')
   \<and> get_signer env_plain provider_plain =
     Inl (KeyNotFoundError [''Exception'']
       ''Signing key not found in KMS or local file, check configuration.'')"
proof
  have "get_certificate env_kms_down ''/certs/signing-bundle.pem'' = Inr ''BUNDLE-PEM''"
    by (simp add: get_certificate_def startswith_def open_rb_def env_kms_down_def env_plain_def)
  from get_signer_key_file_missing[of env_kms_down "''/certs/signing-bundle.pem''"
      "''BUNDLE-PEM''" "[''BUNDLE-PEM'']" provider_plain "''/certs/signing-key.pem''", OF _ this]
  show "get_signer env_kms_down provider_plain =
     Inl (KeyNotFoundError [''Exception'']
       ''Signing key not found in KMS or local file, check configuration.'')"
    by (simp add: env_kms_down_def env_plain_def)
next
  have "get_certificate env_plain ''/certs/signing-bundle.pem'' = Inr ''BUNDLE-PEM''"
    by (simp add: get_certificate_def startswith_def open_rb_def env_plain_def)
  from get_signer_key_file_missing[of env_plain "''/certs/signing-bundle.pem''"
      "''BUNDLE-PEM''" "[''BUNDLE-PEM'']" provider_plain "''/certs/signing-key.pem''", OF _ this]
  show "get_signer env_plain provider_plain =
     Inl (KeyNotFoundError [''Exception'']
       ''Signing key not found in KMS or local file, check configuration.'')"
    by (simp add: env_plain_def)
qed

text \<open>
  C2. \<^verbatim>\<open>get_signer\<close> never reads the managed secret store: its result is the same
  whatever the store holds. With the key-management tier failing, the signing key held
  in the secret store under the name of \<^verbatim>\<open>conf.SIGNING_KEY\<close> and no local key file, it
  raises \<^verbatim>\<open>KeyNotFoundError\<close> where the tier order of its docstring gives the signer
  built from the stored key.
\<close>

theorem get_signer_skips_secret_store:
  "get_signer (E\<lparr>ssm_parameters := store\<rparr>) cp = get_signer E cp
   \<and> conf_SIGNING_KEY env_kms_down = Some ''/certs/signing-key.pem''
   \<and> ssm_parameters env_kms_down ''/certs/signing-key.pem'' = Some ''KEY-PEM''
   \<and> get_signer env_kms_down provider_plain =
       Inl (KeyNotFoundError [''Exception'']
         ''Signing key not found in KMS or local file, check configuration.'')"
proof (intro conjI)
  show "get_signer (E\<lparr>ssm_parameters := store\<rparr>) cp = get_signer E cp"
    by (simp add: get_signer_def secret_store_unread
        cong: sum.case_cong option.case_cong)
  show "conf_SIGNING_KEY env_kms_down = Some ''/certs/signing-key.pem''"
    by (simp add: env_kms_down_def env_plain_def)
  show "ssm_parameters env_kms_down ''/certs/signing-key.pem'' = Some ''KEY-PEM''"
    by (simp add: env_kms_down_def)
  show "get_signer env_kms_down provider_plain =
       Inl (KeyNotFoundError [''Exception'']
         ''Signing key not found in KMS or local file, check configuration.'')"
    by (simp add: get_signer_def env_kms_down_def env_plain_def get_certificate_def
        startswith_def open_rb_def kms_tier_def file_tier_def isinstance_def
        FileNotFoundError_def)
qed

section \<open>Start-up\<close>

text \<open>
  C8, as amended. If \<^verbatim>\<open>ROOT_CA_CERTIFICATE\<close> or \<^verbatim>\<open>SIGNING_BUNDLE\<close> is unset (or
  empty), \<^verbatim>\<open>lifespan\<close> raises \<^verbatim>\<open>ValueError\<close> before it loads a certificate or resolves
  a signer, so the application never starts serving.
\<close>

theorem lifespan_unset_locator:
  "(falsy (conf_ROOT_CA_CERTIFICATE E) \<longrightarrow>
      lifespan E = Inl (ValueError ''ROOT_CA_CERTIFICATE is not set''))
   \<and> (\<not> falsy (conf_ROOT_CA_CERTIFICATE E) \<and> falsy (conf_SIGNING_BUNDLE E) \<longrightarrow>
      lifespan E = Inl (ValueError ''SIGNING_BUNDLE is not set''))
   \<and> falsy None \<and> falsy (Some [])"
  by (simp add: lifespan_def falsy_def)

theorem lifespan_unset_locator_witness:
  "lifespan (env_plain\<lparr>conf_SIGNING_BUNDLE := None\<rparr>)
     = Inl (ValueError ''SIGNING_BUNDLE is not set'')"
proof -
  have "\<not> falsy (conf_ROOT_CA_CERTIFICATE (env_plain\<lparr>conf_SIGNING_BUNDLE := None\<rparr>))
      \<and> falsy (conf_SIGNING_BUNDLE (env_plain\<lparr>conf_SIGNING_BUNDLE := None\<rparr>))"
    by (simp add: falsy_def env_plain_def)
  from lifespan_unset_locator[THEN conjunct2, THEN conjunct1, THEN mp, OF this]
  show ?thesis .
qed

theorem lifespan_unset_root_counterexample:
  "lifespan (env_plain\<lparr>conf_ROOT_CA_CERTIFICATE := None\<rparr>)
     = Inl (ValueError ''ROOT_CA_CERTIFICATE is not set'')
   \<and> \<not> isinstance (ValueError ''ROOT_CA_CERTIFICATE is not set'') ''ConfigurationError''"
  by (simp add: lifespan_def falsy_def isinstance_def ValueError_def)

section \<open>Timestamps of the permission steps\<close>

declare decimal.simps [simp del]

lemma is_digit_digit_char: "is_digit (digit_char n)"
proof -
  have "n mod 10 < length ''0123456789''" by simp
  then have "''0123456789'' ! (n mod 10) \<in> set ''0123456789''" by (rule nth_mem)
  then show ?thesis by (simp only: is_digit_def digit_char_def)
qed

lemma digits_decimal: "list_all is_digit (decimal n)"
proof (induction n rule: decimal.induct)
  case (1 n)
  show ?case
  proof (cases "n < 10")
    case True
    then show ?thesis by (subst decimal.simps) (simp add: is_digit_digit_char)
  next
    case False
    with 1 show ?thesis by (subst decimal.simps) (simp add: is_digit_digit_char)
  qed
qed

lemma length_decimal_le: "n < 10 ^ k \<Longrightarrow> 0 < k \<Longrightarrow> length (decimal n) \<le> k"
proof (induction k arbitrary: n)
  case 0
  then show ?case by simp
next
  case (Suc k)
  show ?case
  proof (cases "n < 10")
    case True
    then show ?thesis by (subst decimal.simps) simp
  next
    case False
    then have k: "0 < k" using Suc.prems(1) by (cases k) auto
    have "n div 10 < 10 ^ k" using Suc.prems(1) by (simp add: div_less_iff_less_mult mult.commute)
    from Suc.IH[OF this k] False show ?thesis by (subst decimal.simps) simp
  qed
qed

lemma length_zero_padded: "n < 10 ^ k \<Longrightarrow> 0 < k \<Longrightarrow> length (zero_padded k n) = k"
  using length_decimal_le[of n k] by (simp add: zero_padded_def)

lemma length_pads:
  "n < 100 \<Longrightarrow> length (zero_padded 2 n) = 2"
  "n < 10000 \<Longrightarrow> length (zero_padded 4 n) = 4"
  "n < 1000000 \<Longrightarrow> length (zero_padded 6 n) = 6"
  using length_zero_padded[of n 2] length_zero_padded[of n 4] length_zero_padded[of n 6]
  by simp_all

lemma digits_zeros: "list_all is_digit (replicate m (CHR ''0''))"
  by (simp add: list_all_iff is_digit_def)

lemma digits_zero_padded: "list_all is_digit (zero_padded k n)"
  by (simp add: zero_padded_def digits_decimal digits_zeros)

lemma date_time_shape_parts:
  assumes "length y = 4" "length mo = 2" "length dd = 2" "length hh = 2" "length mi = 2"
    "length ss = 2"
    and "list_all is_digit y" "list_all is_digit mo" "list_all is_digit dd"
    "list_all is_digit hh" "list_all is_digit mi" "list_all is_digit ss"
  shows "date_time_shape (y @ ''-'' @ mo @ ''-'' @ dd @ ''T'' @ hh @ '':'' @ mi @ '':'' @ ss)"
  using assms by (simp add: date_time_shape_def nth_append)

lemma isoformat_seconds_shape:
  assumes "valid_datetime d"
  shows "date_time_shape (isoformat_seconds d)"
proof -
  from assms have b: "year d < 10000" "month d < 100" "day d < 100" "hour d < 100"
    "minute d < 100" "second d < 100"
    by (simp_all add: valid_datetime_def)
  show ?thesis
    unfolding isoformat_seconds_def
    by (rule date_time_shape_parts)
       (simp_all add: length_pads b digits_zero_padded)
qed

lemma length_isoformat_seconds: "valid_datetime d \<Longrightarrow> length (isoformat_seconds d) = 19"
  using isoformat_seconds_shape by (simp add: date_time_shape_def)

lemma format_offset_shape:
  assumes "- 86400000000 < v" "v < 86400000000"
  shows "\<exists>sg body. format_offset (Some v) = sg # body \<and> \<not> is_digit sg \<and> sg \<noteq> CHR ''.''
           \<and> length body = (if (nat \<bar>v\<bar> mod 3600000000) mod 60000000 = 0 then 5
                             else if ((nat \<bar>v\<bar> mod 3600000000) mod 60000000) mod 1000000 = 0
                             then 8 else 15)"
proof -
  define a where "a = nat \<bar>v\<bar>"
  have a: "a < 86400000000" using assms by (simp add: a_def)
  have hh: "a div 3600000000 < 100" using a by (simp add: div_less_iff_less_mult)
  have mm: "(a mod 3600000000) div 60000000 < 100"
    by (simp add: div_less_iff_less_mult)
  have s1: "((a mod 3600000000) mod 60000000) div 1000000 < 100"
    by (simp add: div_less_iff_less_mult)
  have s2: "((a mod 3600000000) mod 60000000) mod 1000000 < 1000000" by simp
  show ?thesis
    unfolding format_offset_def a_def[symmetric] option.case Let_def
    using hh mm s1 s2
    by (auto simp: length_pads is_digit_def)
qed

lemma length_format_microsecond:
  "microsecond d < 1000000 \<Longrightarrow>
   length (format_microsecond d) = (if microsecond d = 0 then 0 else 7)"
  by (simp add: format_microsecond_def length_pads)

lemma iso8601_parts:
  "length S = 19 \<Longrightarrow> iso8601_utc (S @ X @ ''Z'') = (date_time_shape S \<and> fraction_ok X)"
  by (simp add: iso8601_utc_def butlast_append)

lemma iso8601_length: "iso8601_utc s \<Longrightarrow> 20 \<le> length s"
  by (simp add: iso8601_utc_def)

lemma cut_long:
  "length S = 19 \<Longrightarrow> 7 \<le> length T \<Longrightarrow>
   slice_0_minus7 (S @ T) @ ''Z'' = S @ take (length T - 7) T @ ''Z''"
  by (simp add: slice_0_minus7_def)

lemma cut_short:
  "length S = 19 \<Longrightarrow> length T < 7 \<Longrightarrow>
   length (slice_0_minus7 (S @ T) @ ''Z'') = 13 + length T"
  by (simp add: slice_0_minus7_def)

text \<open>The four shapes of the emitted string.\<close>

lemma permission_time_naive_micro:
  assumes "valid_datetime d" "utcoffset d = None" "microsecond d \<noteq> 0"
  shows "permission_time d = isoformat_seconds d @ ''Z''"
proof -
  have "length (format_microsecond d) = 7"
    using assms by (simp add: length_format_microsecond valid_datetime_def)
  then show ?thesis
    using cut_long[of "isoformat_seconds d" "format_microsecond d"] assms
    by (simp add: permission_time_def isoformat_def format_offset_def
        length_isoformat_seconds)
qed

lemma permission_time_naive_whole:
  assumes "valid_datetime d" "utcoffset d = None" "microsecond d = 0"
  shows "length (permission_time d) = 13"
  using cut_short[of "isoformat_seconds d" "[]"] assms
  by (simp add: permission_time_def isoformat_def format_offset_def format_microsecond_def
      length_isoformat_seconds)

lemma permission_time_aware:
  assumes "valid_datetime d" "utcoffset d = Some v"
  shows "(whole_minute_offset d \<and> microsecond d = 0 \<longrightarrow> length (permission_time d) = 19)
    \<and> (whole_minute_offset d \<and> microsecond d \<noteq> 0 \<longrightarrow>
         permission_time d
           = isoformat_seconds d @ ''.'' @ take 5 (zero_padded 6 (microsecond d)) @ ''Z'')
    \<and> (\<not> whole_minute_offset d \<longrightarrow>
         (\<exists>X. permission_time d = isoformat_seconds d @ X @ ''Z'' \<and> \<not> fraction_ok X))"
proof -
  have v: "- 86400000000 < v" "v < 86400000000"
    using assms by (simp_all add: valid_datetime_def)
  have S: "length (isoformat_seconds d) = 19"
    using assms(1) by (rule length_isoformat_seconds)
  have us: "microsecond d < 1000000" using assms(1) by (simp add: valid_datetime_def)
  from format_offset_shape[OF v] obtain sg body where
    O: "format_offset (Some v) = sg # body" and sg: "\<not> is_digit sg" "sg \<noteq> CHR ''.''"
    and len: "length body = (if (nat \<bar>v\<bar> mod 3600000000) mod 60000000 = 0 then 5
                else if ((nat \<bar>v\<bar> mod 3600000000) mod 60000000) mod 1000000 = 0
                then 8 else 15)"
    by blast
  have whole: "whole_minute_offset d = ((nat \<bar>v\<bar> mod 3600000000) mod 60000000 = 0)"
    using assms(2) by (simp add: whole_minute_offset_def)
  let ?S = "isoformat_seconds d"
  let ?P = "zero_padded 6 (microsecond d)"
  have P: "microsecond d \<noteq> 0 \<Longrightarrow> length ?P = 6"
    using us by (simp add: length_pads)
  have iso0: "microsecond d = 0 \<Longrightarrow> isoformat d = ?S @ (sg # body)"
    using assms(2) O by (simp add: isoformat_def format_microsecond_def)
  have iso1: "microsecond d \<noteq> 0 \<Longrightarrow> isoformat d = ?S @ (''.'' @ ?P @ sg # body)"
    using assms(2) O by (simp add: isoformat_def format_microsecond_def)
  show ?thesis
  proof (intro conjI impI)
    assume "whole_minute_offset d \<and> microsecond d = 0"
    then show "length (permission_time d) = 19"
      using cut_short[of ?S "sg # body"] S len whole iso0
      by (simp add: permission_time_def)
  next
    assume h: "whole_minute_offset d \<and> microsecond d \<noteq> 0"
    then have "length body = 5" using len whole by simp
    then show "permission_time d = ?S @ ''.'' @ take 5 ?P @ ''Z''"
      using cut_long[of ?S "''.'' @ ?P @ sg # body"] S iso1 P h
      by (simp add: permission_time_def)
  next
    assume h: "\<not> whole_minute_offset d"
    then have lb: "length body = 8 \<or> length body = 15" using len whole by auto
    show "\<exists>X. permission_time d = ?S @ X @ ''Z'' \<and> \<not> fraction_ok X"
    proof (cases "microsecond d = 0")
      case True
      have "permission_time d = ?S @ take (length body - 6) (sg # body) @ ''Z''"
        using cut_long[of ?S "sg # body"] S iso0[OF True] lb
        by (auto simp: permission_time_def)
      moreover have "\<not> fraction_ok (take (length body - 6) (sg # body))"
        using lb sg by (auto simp: fraction_ok_def take_Cons')
      ultimately show ?thesis by blast
    next
      case False
      have "permission_time d = ?S @ (''.'' @ ?P @ take (length body - 6) (sg # body)) @ ''Z''"
        using cut_long[of ?S "''.'' @ ?P @ sg # body"] S iso1[OF False] lb P[OF False]
        by (auto simp: permission_time_def)
      moreover have "\<not> fraction_ok (''.'' @ ?P @ take (length body - 6) (sg # body))"
        using lb sg by (auto simp: fraction_ok_def take_Cons')
      ultimately show ?thesis by blast
    qed
  qed
qed

lemma digits_take: "list_all is_digit xs \<Longrightarrow> list_all is_digit (take n xs)"
  by (auto simp: list_all_iff dest: in_set_takeD)

lemma permission_time_forms:
  assumes "valid_datetime d"
  shows "((permission_time d = isoformat_seconds d @ ''Z'')
            = (utcoffset d = None \<and> microsecond d \<noteq> 0))
     \<and> (utcoffset d = None \<and> microsecond d \<noteq> 0 \<longrightarrow> iso8601_utc (permission_time d))
     \<and> (microsecond d \<noteq> 0 \<and> whole_minute_offset d \<longrightarrow>
          permission_time d
            = isoformat_seconds d @ ''.'' @ take 5 (zero_padded 6 (microsecond d)) @ ''Z''
          \<and> iso8601_utc (permission_time d))
     \<and> (\<not> (utcoffset d = None \<and> microsecond d \<noteq> 0)
          \<and> \<not> (microsecond d \<noteq> 0 \<and> whole_minute_offset d) \<longrightarrow>
          \<not> iso8601_utc (permission_time d))"
proof -
  let ?S = "isoformat_seconds d"
  let ?P = "zero_padded 6 (microsecond d)"
  have S: "length ?S = 19" using assms by (rule length_isoformat_seconds)
  have shape: "date_time_shape ?S" using assms by (rule isoformat_seconds_shape)
  have us: "microsecond d < 1000000" using assms by (simp add: valid_datetime_def)
  have plain: "iso8601_utc (?S @ ''Z'')"
    using iso8601_parts[OF S, of "[]"] shape by (simp add: fraction_ok_def)
  show ?thesis
  proof (cases "utcoffset d")
    case None
    then have nw: "\<not> whole_minute_offset d" by (simp add: whole_minute_offset_def)
    show ?thesis
    proof (cases "microsecond d = 0")
      case True
      have l: "length (permission_time d) = 13"
        using assms None True by (rule permission_time_naive_whole)
      then have "permission_time d \<noteq> ?S @ ''Z''" using S by auto
      moreover have "\<not> iso8601_utc (permission_time d)"
        using l iso8601_length[of "permission_time d"] by auto
      ultimately show ?thesis using None True nw by simp
    next
      case False
      have "permission_time d = ?S @ ''Z''"
        using assms None False by (rule permission_time_naive_micro)
      then show ?thesis using None False nw plain by simp
    qed
  next
    case (Some v)
    note aware = permission_time_aware[OF assms Some]
    show ?thesis
    proof (cases "whole_minute_offset d")
      case True
      show ?thesis
      proof (cases "microsecond d = 0")
        case z: True
        have l: "length (permission_time d) = 19" using aware True z by blast
        then have "permission_time d \<noteq> ?S @ ''Z''" using S by auto
        moreover have "\<not> iso8601_utc (permission_time d)"
          using l iso8601_length[of "permission_time d"] by auto
        ultimately show ?thesis using Some True z by simp
      next
        case nz: False
        have f: "permission_time d = ?S @ ''.'' @ take 5 ?P @ ''Z''"
          using aware True nz by blast
        then have ne: "permission_time d \<noteq> ?S @ ''Z''" by simp
        have "length ?P = 6" using us by (simp add: length_pads)
        then have "fraction_ok (''.'' @ take 5 ?P)"
          using digits_take[OF digits_zero_padded, of 5 6 "microsecond d"]
          by (auto simp: fraction_ok_def)
        then have "iso8601_utc (?S @ (''.'' @ take 5 ?P) @ ''Z'')"
          using iso8601_parts[OF S] shape by blast
        then have "iso8601_utc (permission_time d)" using f by simp
        with f ne show ?thesis using Some True nz by simp
      qed
    next
      case False
      then obtain X where X: "permission_time d = ?S @ X @ ''Z''" "\<not> fraction_ok X"
        using aware by blast
      then have "X \<noteq> []" by (auto simp: fraction_ok_def)
      then have "permission_time d \<noteq> ?S @ ''Z''" using X(1) by simp
      moreover have "\<not> iso8601_utc (permission_time d)"
        using iso8601_parts[OF S, of X] X by simp
      ultimately show ?thesis using Some False by simp
    qed
  qed
qed

lemma aware_micro_values:
  "isoformat instant_aware_micro = ''2024-01-01T00:00:00.123456+00:00''"
  "permission_time instant_aware_micro = ''2024-01-01T00:00:00.12345Z''"
  "iso8601_utc ''2024-01-01T00:00:00.12345Z''"
  "valid_datetime instant_aware_micro"
  by (simp_all add: permission_time_def slice_0_minus7_def isoformat_def isoformat_seconds_def
      format_microsecond_def format_offset_def zero_padded_def decimal.simps digit_char_def
      instant_aware_micro_def iso8601_utc_def date_time_shape_def fraction_ok_def is_digit_def
      valid_datetime_def)

lemma payload_types:
  "dict_getitem (edp_permission_step E g e a) ''type'' = Inr (JStr ''permission'')"
  "dict_getitem (edp_origin_step E f t ou ol pid) ''type'' = Inr (JStr ''origin'')"
  "dict_getitem (edp_transfer_step E f t su fid cm oid pid) ''type'' = Inr (JStr ''transfer'')"
  "dict_getitem (cap_receipt_step tid) ''type'' = Inr (JStr ''receipt'')"
  "dict_getitem (cap_permission_step E g e a) ''type'' = Inr (JStr ''permission'')"
  "dict_getitem (cap_intensity_origin_step E f t go gl pc) ''type'' = Inr (JStr ''origin'')"
  "dict_getitem (cap_processing_step E rid oid pid) ''type'' = Inr (JStr ''process'')"
  "dict_getitem (cap_transfer_step E f t bm bs prid pid) ''type'' = Inr (JStr ''transfer'')"
  by (simp_all add: payload_defs dict_getitem_def)

lemma permission_step_fields:
  "dict_getitem (edp_permission_step E g e a) ''timestamp'' = Inr (JStr (permission_time g))"
  "dict_getitem (edp_permission_step E g e a) ''expires'' = Inr (JStr (permission_time e))"
  "dict_getitem (cap_permission_step E g e a) ''timestamp'' = Inr (JStr (permission_time g))"
  "dict_getitem (cap_permission_step E g e a) ''expires'' = Inr (JStr (permission_time e))"
  by (simp_all add: payload_defs dict_getitem_def)

lemma edp_permission_events:
  assumes "Ev_add_step r p \<in> set (snd (create_edp_provenance_record E L signer from_date
      to_date granted expires service_url account fapi_id cap_member origin_url
      origin_license_url []))"
    and "dict_getitem p ''type'' = Inr (JStr ''permission'')"
  shows "p = edp_permission_step E granted expires account"
  using assms
  by (auto simp: create_edp_provenance_record_def io_defs payload_types
      split: sum.splits option.splits prod.splits if_splits)

lemma cap_permission_events:
  assumes "Ev_add_step r p \<in> set (snd (create_cap_provenance_record E L signer cp att
        cap_member_id bank_member_id cap_account granted expires grid_origin grid_license
        postcode edp_url edp_member bank_service_url from_date to_date []))"
    and "dict_getitem p ''type'' = Inr (JStr ''permission'')"
  shows "p = cap_permission_step E granted expires cap_account"
  using assms
  by (auto simp: create_cap_provenance_record_def io_defs payload_types
      split: sum.splits option.splits prod.splits if_splits)

lemma cap_run_plain_permission:
  "\<exists>r. snd cap_run_plain ! 4
        = Ev_add_step r (cap_permission_step env_plain day_plain day_plain ''cap-account'')"
  by (simp add: cap_run_plain_def create_cap_provenance_record_def io_defs
      Record_init_def lib_plain_def attachment_plain_def dict_getitem_def env_plain_def
      search_criteria_def provider_plain_def)

lemma day_plain_values:
  "valid_datetime day_plain"
  "utcoffset day_plain = Some 0"
  "microsecond day_plain = 0"
  "permission_time day_plain = ''2024-01-01T00:00:0Z''"
  by (simp_all add: permission_time_def slice_0_minus7_def isoformat_def isoformat_seconds_def
      format_microsecond_def format_offset_def zero_padded_def decimal.simps digit_char_def
      day_plain_def valid_datetime_def)

text \<open>
  C9, as amended. The \<^verbatim>\<open>"timestamp"\<close> and \<^verbatim>\<open>"expires"\<close> fields of every permission step
  either workflow appends are the \<^verbatim>\<open>isoformat()\<close> of the input datetime without its last
  seven characters, followed by \<^verbatim>\<open>Z\<close>. For a valid datetime this is the date and time to
  the second followed by \<^verbatim>\<open>Z\<close> exactly when the datetime is naive with non-zero
  microseconds. For a timezone-aware datetime with non-zero microseconds and a
  whole-minute offset it is the date and time with the first five microsecond digits
  followed by \<^verbatim>\<open>Z\<close>, which is a well-formed ISO 8601 timestamp (the offset is dropped).
  For every other input the string is cut inside the time or the offset and is not a
  well-formed ISO 8601 timestamp.
\<close>

theorem permission_step_times:
  "(Ev_add_step r p \<in> set (snd (create_edp_provenance_record E L signer from_date
        to_date granted expires service_url account fapi_id cap_member origin_url
        origin_license_url []))
      \<and> dict_getitem p ''type'' = Inr (JStr ''permission'') \<longrightarrow>
      dict_getitem p ''timestamp'' = Inr (JStr (permission_time granted))
      \<and> dict_getitem p ''expires'' = Inr (JStr (permission_time expires)))
   \<and> (Ev_add_step r' p' \<in> set (snd (create_cap_provenance_record E L signer cp att
        cap_member_id bank_member_id cap_account cap_granted cap_expires grid_origin
        grid_license postcode edp_url edp_member bank_service_url from_date to_date []))
      \<and> dict_getitem p' ''type'' = Inr (JStr ''permission'') \<longrightarrow>
      dict_getitem p' ''timestamp'' = Inr (JStr (permission_time cap_granted))
      \<and> dict_getitem p' ''expires'' = Inr (JStr (permission_time cap_expires)))
   \<and> permission_time d = take (length (isoformat d) - 7) (isoformat d) @ ''Z''
   \<and> (valid_datetime d \<longrightarrow>
        ((permission_time d = isoformat_seconds d @ ''Z'')
            = (utcoffset d = None \<and> microsecond d \<noteq> 0))
        \<and> (utcoffset d = None \<and> microsecond d \<noteq> 0 \<longrightarrow> iso8601_utc (permission_time d))
        \<and> (microsecond d \<noteq> 0 \<and> whole_minute_offset d \<longrightarrow>
             permission_time d
               = isoformat_seconds d @ ''.'' @ take 5 (zero_padded 6 (microsecond d)) @ ''Z''
             \<and> iso8601_utc (permission_time d))
        \<and> (\<not> (utcoffset d = None \<and> microsecond d \<noteq> 0)
             \<and> \<not> (microsecond d \<noteq> 0 \<and> whole_minute_offset d) \<longrightarrow>
             \<not> iso8601_utc (permission_time d)))"
proof (intro conjI)
  show "Ev_add_step r p \<in> set (snd (create_edp_provenance_record E L signer from_date
        to_date granted expires service_url account fapi_id cap_member origin_url
        origin_license_url []))
      \<and> dict_getitem p ''type'' = Inr (JStr ''permission'') \<longrightarrow>
      dict_getitem p ''timestamp'' = Inr (JStr (permission_time granted))
      \<and> dict_getitem p ''expires'' = Inr (JStr (permission_time expires))"
  proof (intro impI, elim conjE)
    assume "Ev_add_step r p \<in> set (snd (create_edp_provenance_record E L signer from_date
        to_date granted expires service_url account fapi_id cap_member origin_url
        origin_license_url []))"
      and "dict_getitem p ''type'' = Inr (JStr ''permission'')"
    then have "p = edp_permission_step E granted expires account"
      by (rule edp_permission_events)
    then show "dict_getitem p ''timestamp'' = Inr (JStr (permission_time granted))
      \<and> dict_getitem p ''expires'' = Inr (JStr (permission_time expires))"
      by (simp add: permission_step_fields)
  qed
  show "Ev_add_step r' p' \<in> set (snd (create_cap_provenance_record E L signer cp att
        cap_member_id bank_member_id cap_account cap_granted cap_expires grid_origin
        grid_license postcode edp_url edp_member bank_service_url from_date to_date []))
      \<and> dict_getitem p' ''type'' = Inr (JStr ''permission'') \<longrightarrow>
      dict_getitem p' ''timestamp'' = Inr (JStr (permission_time cap_granted))
      \<and> dict_getitem p' ''expires'' = Inr (JStr (permission_time cap_expires))"
  proof (intro impI, elim conjE)
    assume "Ev_add_step r' p' \<in> set (snd (create_cap_provenance_record E L signer cp att
        cap_member_id bank_member_id cap_account cap_granted cap_expires grid_origin
        grid_license postcode edp_url edp_member bank_service_url from_date to_date []))"
      and "dict_getitem p' ''type'' = Inr (JStr ''permission'')"
    then have "p' = cap_permission_step E cap_granted cap_expires cap_account"
      by (rule cap_permission_events)
    then show "dict_getitem p' ''timestamp'' = Inr (JStr (permission_time cap_granted))
      \<and> dict_getitem p' ''expires'' = Inr (JStr (permission_time cap_expires))"
      by (simp add: permission_step_fields)
  qed
  show "permission_time d = take (length (isoformat d) - 7) (isoformat d) @ ''Z''"
    by (simp add: permission_time_def slice_0_minus7_def)
  show "valid_datetime d \<longrightarrow>
        ((permission_time d = isoformat_seconds d @ ''Z'')
            = (utcoffset d = None \<and> microsecond d \<noteq> 0))
        \<and> (utcoffset d = None \<and> microsecond d \<noteq> 0 \<longrightarrow> iso8601_utc (permission_time d))
        \<and> (microsecond d \<noteq> 0 \<and> whole_minute_offset d \<longrightarrow>
             permission_time d
               = isoformat_seconds d @ ''.'' @ take 5 (zero_padded 6 (microsecond d)) @ ''Z''
             \<and> iso8601_utc (permission_time d))
        \<and> (\<not> (utcoffset d = None \<and> microsecond d \<noteq> 0)
             \<and> \<not> (microsecond d \<noteq> 0 \<and> whole_minute_offset d) \<longrightarrow>
             \<not> iso8601_utc (permission_time d))"
    using permission_time_forms by blast
qed

theorem permission_step_times_witness:
  "(\<exists>r p. Ev_add_step r p \<in> set (snd cap_run_plain)
       \<and> dict_getitem p ''timestamp'' = Inr (JStr ''2024-01-01T00:00:0Z''))
   \<and> permission_time day_plain \<noteq> isoformat_seconds day_plain @ ''Z''
   \<and> \<not> iso8601_utc (permission_time day_plain)"
proof (intro conjI)
  obtain r where r: "snd cap_run_plain ! 4
        = Ev_add_step r (cap_permission_step env_plain day_plain day_plain ''cap-account'')"
    using cap_run_plain_permission by blast
  have "length (snd cap_run_plain) = 10"
    using arg_cong[OF cap_run_plain_calls, of length] by simp
  then have "snd cap_run_plain ! 4 \<in> set (snd cap_run_plain)" by simp
  with r have m: "Ev_add_step r (cap_permission_step env_plain day_plain day_plain ''cap-account'')
          \<in> set (snd cap_run_plain)" by simp
  have "Ev_add_step r (cap_permission_step env_plain day_plain day_plain ''cap-account'')
          \<in> set (snd (create_cap_provenance_record env_plain lib_plain signer_plain
       provider_plain attachment_plain ''cap-member'' ''bank-member'' ''cap-account''
       day_plain day_plain
       ''https://example.com/grid-origin'' ''https://example.com/grid-license'' ''AB12CD''
       ''https://example.com/edp'' ''edp-member'' ''https://example.com/bank''
       day_plain day_plain []))
      \<and> dict_getitem (cap_permission_step env_plain day_plain day_plain ''cap-account'') ''type''
          = Inr (JStr ''permission'')"
    using m by (simp add: cap_run_plain_def payload_types)
  from permission_step_times[THEN conjunct2, THEN conjunct1, THEN mp, OF this] m
  show "\<exists>r p. Ev_add_step r p \<in> set (snd cap_run_plain)
       \<and> dict_getitem p ''timestamp'' = Inr (JStr ''2024-01-01T00:00:0Z'')"
    by (auto simp: day_plain_values)
next
  have c: "\<not> (utcoffset day_plain = None \<and> microsecond day_plain \<noteq> 0)
      \<and> \<not> (microsecond day_plain \<noteq> 0 \<and> whole_minute_offset day_plain)"
    by (simp add: day_plain_values)
  note t = permission_step_times[THEN conjunct2, THEN conjunct2, THEN conjunct2, THEN mp,
      OF day_plain_values(1)]
  from t[THEN conjunct1] c
  show "permission_time day_plain \<noteq> isoformat_seconds day_plain @ ''Z''" by simp
  from t[THEN conjunct2, THEN conjunct2, THEN conjunct2, THEN mp, OF c]
  show "\<not> iso8601_utc (permission_time day_plain)" .
qed

theorem permission_time_aware_micro_counterexample:
  "valid_datetime instant_aware_micro
   \<and> microsecond instant_aware_micro = 123456
   \<and> utcoffset instant_aware_micro = Some 0
   \<and> isoformat instant_aware_micro = ''2024-01-01T00:00:00.123456+00:00''
   \<and> permission_time instant_aware_micro = ''2024-01-01T00:00:00.12345Z''
   \<and> iso8601_utc (permission_time instant_aware_micro)"
  by (simp add: aware_micro_values) (simp add: instant_aware_micro_def)

end
